theory Spec2Isabelle
  imports Main "HOL-Library.AList"
begin

section \<open>The database fetcher of the CodeQL extension (database-fetcher.ts)\<close>

text \<open>
  A shallow embedding of \<^verbatim>\<open>extensions/ql-vscode/src/databases/database-fetcher.ts\<close>.
  The functions of that file are asynchronous but run one after the other; each is a
  function from the state of the world before the call to a result and the state after it.
\<close>

subsection \<open>Paths and the file system\<close>

text \<open>
  A path, a string in the source, is the list of its components below the root. A file
  system is a tree without links: a directory holds its entries in the order \<^verbatim>\<open>readdir\<close>
  lists them. A regular file is either a zip archive of a tree (\<open>Zip\<close>) or any other
  file (\<open>File\<close>).
\<close>

type_synonym path = "string list"

datatype fsnode = File | Zip fsnode | Dir "(string \<times> fsnode) list"

text \<open>
  \<^verbatim>\<open>join(dir, name)\<close> of node's \<^verbatim>\<open>path\<close> module, for one further segment that holds no
  separator: an empty segment and \<^verbatim>\<open>.\<close> leave the directory, \<^verbatim>\<open>..\<close> is its parent.
\<close>

definition join :: "path \<Rightarrow> string \<Rightarrow> path" where
  "join dir name =
     (if name = [] \<or> name = ''.'' then dir
      else if name = ''..'' then butlast dir
      else dir @ [name])"

fun lookup :: "fsnode \<Rightarrow> path \<Rightarrow> fsnode option" where
  "lookup t [] = Some t"
| "lookup (Dir cs) (n # p) = (case map_of cs n of None \<Rightarrow> None | Some c \<Rightarrow> lookup c p)"
| "lookup t (n # p) = None"

definition pathExists :: "fsnode \<Rightarrow> path \<Rightarrow> bool" where
  "pathExists fs p = (lookup fs p \<noteq> None)"

subsection \<open>findDirWithFile (lines 600-619)\<close>

text \<open>
  \<^verbatim>\<open>
  export async function findDirWithFile(dir: string, ...toFind: string[]) {
    if (!(await stat(dir)).isDirectory()) { return; }
    const files = await readdir(dir);
    if (toFind.some((file) => files.includes(file))) { return dir; }
    for (const file of files) {
      const newPath = join(dir, file);
      const result = await findDirWithFile(newPath, ...toFind);
      if (result) { return result; }
    }
    return;
  }
  \<close>
  The second argument of the model is the tree that the file system holds at \<open>dir\<close>;
  \<open>findInFiles\<close> is the \<^verbatim>\<open>for\<close> loop over the listing.
\<close>

definition some :: "('a \<Rightarrow> bool) \<Rightarrow> 'a list \<Rightarrow> bool" where
  "some p xs = list_ex p xs"

definition list_includes :: "'a list \<Rightarrow> 'a \<Rightarrow> bool" where
  "list_includes xs x = List.member xs x"

fun findDirWithFile :: "path \<Rightarrow> fsnode \<Rightarrow> string list \<Rightarrow> path option"
  and findInFiles :: "path \<Rightarrow> (string \<times> fsnode) list \<Rightarrow> string list \<Rightarrow> path option" where
  "findDirWithFile dir (Dir cs) toFind =
     (if some (\<lambda>file. list_includes (map fst cs) file) toFind then Some dir
      else findInFiles dir cs toFind)"
| "findDirWithFile dir File toFind = None"
| "findDirWithFile dir (Zip a) toFind = None"
| "findInFiles dir [] toFind = None"
| "findInFiles dir ((file, c) # files) toFind =
     (case findDirWithFile (join dir file) c toFind of
        Some result \<Rightarrow> Some result
      | None \<Rightarrow> findInFiles dir files toFind)"

text \<open>
  For the specification: every directory of the tree that has an entry named like one of
  the markers, in depth-first pre-order, whether or not a directory above it has one too.
\<close>

fun markerDirs :: "path \<Rightarrow> fsnode \<Rightarrow> string list \<Rightarrow> path list"
  and markerDirsIn :: "path \<Rightarrow> (string \<times> fsnode) list \<Rightarrow> string list \<Rightarrow> path list" where
  "markerDirs dir (Dir cs) toFind =
     (if (\<exists>file \<in> set toFind. file \<in> fst ` set cs) then [dir] else [])
       @ markerDirsIn dir cs toFind"
| "markerDirs dir File toFind = []"
| "markerDirs dir (Zip a) toFind = []"
| "markerDirsIn dir [] toFind = []"
| "markerDirsIn dir ((file, c) # files) toFind =
     markerDirs (join dir file) c toFind @ markerDirsIn dir files toFind"

text \<open>The first result that is not empty, in the order of the list.\<close>

fun firstResult :: "'a option list \<Rightarrow> 'a option" where
  "firstResult [] = None"
| "firstResult (None # rs) = firstResult rs"
| "firstResult (Some r # rs) = Some r"

subsection \<open>Changing the file system\<close>

text \<open>
  \<open>put\<close> writes a node below an existing directory (a new entry goes to the end of the
  listing), \<open>rm\<close> removes an entry with all below it and is silent when there is none,
  \<open>mkdirp\<close> creates a directory with the missing ones above it. \<open>None\<close> is the failure
  of the system call.
\<close>

fun put :: "fsnode \<Rightarrow> path \<Rightarrow> fsnode \<Rightarrow> fsnode option" where
  "put t [] v = None"
| "put (Dir cs) [n] v = Some (Dir (AList.update n v cs))"
| "put (Dir cs) (n # p) v =
     (case map_of cs n of
        None \<Rightarrow> None
      | Some c \<Rightarrow> (case put c p v of None \<Rightarrow> None | Some c' \<Rightarrow> Some (Dir (AList.update n c' cs))))"
| "put t (n # p) v = None"

fun rm :: "fsnode \<Rightarrow> path \<Rightarrow> fsnode" where
  "rm (Dir cs) [n] = Dir (AList.delete n cs)"
| "rm (Dir cs) (n # p) =
     (case map_of cs n of None \<Rightarrow> Dir cs | Some c \<Rightarrow> Dir (AList.update n (rm c p) cs))"
| "rm t p = t"

fun mkdirp :: "fsnode \<Rightarrow> path \<Rightarrow> fsnode option" where
  "mkdirp (Dir cs) [] = Some (Dir cs)"
| "mkdirp t [] = None"
| "mkdirp (Dir cs) (n # p) =
     (case map_of cs n of
        None \<Rightarrow> (case mkdirp (Dir []) p of None \<Rightarrow> None | Some d \<Rightarrow> Some (Dir (cs @ [(n, d)])))
      | Some c \<Rightarrow> (case mkdirp c p of None \<Rightarrow> None | Some d \<Rightarrow> Some (Dir (AList.update n d cs))))"
| "mkdirp t (n # p) = None"

subsection \<open>Strings\<close>

definition endsWith :: "string \<Rightarrow> string \<Rightarrow> bool" where
  "endsWith s suffix = (length suffix \<le> length s \<and> drop (length s - length suffix) s = suffix)"

fun startsWith :: "string \<Rightarrow> string \<Rightarrow> bool" where
  "startsWith s [] = True"
| "startsWith [] (c # cs) = False"
| "startsWith (d # ds) (c # cs) = (d = c \<and> startsWith ds cs)"

text \<open>\<^verbatim>\<open>s.includes(t)\<close> on strings: \<open>t\<close> occurs in \<open>s\<close>.\<close>

fun str_includes :: "string \<Rightarrow> string \<Rightarrow> bool" where
  "str_includes [] t = (t = [])"
| "str_includes (c # cs) t = (startsWith (c # cs) t \<or> str_includes cs t)"

text \<open>\<^verbatim>\<open>s.split(sep)\<close> for a separator of one character.\<close>

fun split :: "char \<Rightarrow> string \<Rightarrow> string list" where
  "split sep [] = [[]]"
| "split sep (c # cs) =
     (if c = sep then [] # split sep cs
      else (case split sep cs of [] \<Rightarrow> [[c]] | part # parts \<Rightarrow> (c # part) # parts))"

text \<open>The decimal numeral of a number, as a template literal prints it.\<close>

definition digit :: "nat \<Rightarrow> char" where
  "digit n = ''0123456789'' ! n"

function string_of_nat :: "nat \<Rightarrow> string" where
  "string_of_nat n = (if n < 10 then [digit n] else string_of_nat (n div 10) @ [digit (n mod 10)])"
  by pat_completeness auto
termination
  by (relation "measure (\<lambda>n. n)") auto

declare string_of_nat.simps [simp del]

text \<open>
  \<^verbatim>\<open>basename\<close> of node's \<^verbatim>\<open>path\<close> module (POSIX) on a string: what follows the last
  separator, trailing separators dropped. On a path of the model it is the last component.
\<close>

definition basename :: "string \<Rightarrow> string" where
  "basename p =
     rev (takeWhile (\<lambda>c. c \<noteq> CHR ''/'') (dropWhile (\<lambda>c. c = CHR ''/'') (rev p)))"

definition path_basename :: "path \<Rightarrow> string" where
  "path_basename p = (if p = [] then [] else last p)"

text \<open>A template literal prints an undefined value as \<^verbatim>\<open>undefined\<close>.\<close>

definition template :: "string option \<Rightarrow> string" where
  "template v = (case v of None \<Rightarrow> ''undefined'' | Some s \<Rightarrow> s)"

text \<open>A string or undefined as a condition: undefined and the empty string are falsy.\<close>

definition truthy :: "string option \<Rightarrow> bool" where
  "truthy v = (case v of None \<Rightarrow> False | Some s \<Rightarrow> s \<noteq> [])"

subsection \<open>Errors, progress reports, events\<close>

datatype error = Error string | AbortError string

fun getErrorMessage :: "error \<Rightarrow> string" where
  "getErrorMessage (Error m) = m"
| "getErrorMessage (AbortError m) = m"

fun instanceofAbortError :: "error \<Rightarrow> bool" where
  "instanceofAbortError (AbortError m) = True"
| "instanceofAbortError (Error m) = False"

record progress =
  message :: string
  step :: nat
  maxStep :: nat

record uri =
  uri_scheme :: string
  uri_path :: string
  uri_fsPath :: path

datatype origin =
    OriginUrl string
  | OriginArchive string
  | OriginGithub string nat string "string option"

record quick_pick_item =
  label :: string
  description :: string
  item_language :: string

record database_item =
  databaseUri :: path
  item_origin :: origin
  item_makeSelected :: bool
  item_nameOverride :: "string option"
  item_addSourceArchiveFolder :: bool

datatype event =
    Progress progress
  | Log string
  | InputBox string
  | QuickPick "quick_pick_item list"
  | GetOctokit
  | ListCodeqlDatabases string "string option"
  | Auth
  | Fetch string "(string \<times> string) list"
  | Unbundle path path
  | OpenDatabase database_item
  | ExecuteCommand string
  | InformationMessage string

text \<open>
  The world: the file system, the events so far, and \<open>deferred\<close>, the removals that a
  callback will start after the running function has returned.
\<close>

record world =
  files :: fsnode
  trace :: "event list"
  deferred :: "path list"

definition emit :: "event \<Rightarrow> world \<Rightarrow> world" where
  "emit e w = w\<lparr>trace := trace w @ [e]\<rparr>"

text \<open>The reports that the progress callback has received, oldest first.\<close>

fun progress_of :: "event \<Rightarrow> progress list" where
  "progress_of (Progress p) = [p]"
| "progress_of e = []"

definition reports :: "world \<Rightarrow> progress list" where
  "reports w = concat (map progress_of (trace w))"

subsection \<open>The collaborators\<close>

text \<open>
  What the file imports from elsewhere is a parameter of the model: the editor's
  \<^verbatim>\<open>Uri\<close>, the configuration, the network, the CodeQL CLI, the archiver, the GitHub
  client, the user interface, the database manager, and the helpers of other files of the
  extension (\<^verbatim>\<open>getNwoFromGitHubUrl\<close>, \<^verbatim>\<open>isValidGitHubNwo\<close>, \<^verbatim>\<open>reportStreamProgress\<close>,
  \<^verbatim>\<open>getLanguageDisplayName\<close>). A collaborator that can throw returns an error or a value.
\<close>

record codeql_database =
  db_language :: string
  db_url :: string
  db_id :: nat
  db_created_at :: string
  db_commit_oid :: "string option"

record octokit =
  listCodeqlDatabases :: "string \<Rightarrow> string option \<Rightarrow> error + codeql_database list"
  auth :: "string option"

text \<open>
  A response: \<open>body\<close> is what the stream delivers, the whole content or the error on
  which it breaks off; \<open>response_text\<close> is the body of a failing response, read as text.
\<close>

record response =
  ok :: bool
  response_text :: string
  content_length :: "nat option"
  body :: "error + fsnode"

text \<open>A parsed JSON value, as far as \<^verbatim>\<open>checkForFailingResponse\<close> reads it.\<close>

record json =
  json_error :: "string option"
  json_message :: "string option"
  json_reason :: "string option"
  json_stringify :: string

text \<open>
  \<^item> \<open>Uri_parse value strict\<close> is \<^verbatim>\<open>Uri.parse(value, strict)\<close>, \<open>None\<close> when it throws;
    \<open>Uri_file p\<close> is \<^verbatim>\<open>Uri.file(p).toString(true)\<close>.
  \<^item> \<open>tmpDir\<close> is \<^verbatim>\<open>tmpDir.name\<close> and \<open>now\<close> is \<^verbatim>\<open>Date.now()\<close>.
  \<^item> \<open>fetch url headers\<close> is the outcome of the request, \<open>JSON_parse\<close> gives \<open>None\<close>
    when reading the fields of the parsed text throws, \<open>reportStreamProgress\<close> gives the
    reports that the stream of the response causes.
  \<^item> \<open>cli_databaseUnbundle\<close> maps what there is at the path of the archive (\<open>None\<close> for
    nothing) to the error of the CLI or to the tree it extracts.
  \<^item> \<open>zip_error\<close>, \<open>remove_error\<close> and \<open>openDatabase_error\<close> say whether the archiver,
    a removal and the database manager throw.
  \<^item> \<open>showInputBox\<close> and \<open>showQuickPick\<close> are the answers of the user, \<open>None\<close> for a
    dismissed prompt.
\<close>

record env =
  allowHttp :: bool
  isCanary :: bool
  addDatabaseSourceToWorkspace :: bool
  Uri_parse :: "string \<Rightarrow> bool \<Rightarrow> uri option"
  Uri_file :: "path \<Rightarrow> string"
  tmpDir :: path
  now :: nat
  fetch :: "string \<Rightarrow> (string \<times> string) list \<Rightarrow> error + response"
  JSON_parse :: "string \<Rightarrow> json option"
  reportStreamProgress :: "response \<Rightarrow> string \<Rightarrow> nat option \<Rightarrow> progress list"
  cli_databaseUnbundle :: "fsnode option \<Rightarrow> error + fsnode"
  zip_error :: "fsnode \<Rightarrow> error option"
  remove_error :: "path \<Rightarrow> error option"
  openDatabase_error :: "path \<Rightarrow> error option"
  showInputBox :: "string \<Rightarrow> string option"
  showQuickPick :: "quick_pick_item list \<Rightarrow> quick_pick_item option"
  getLanguageDisplayName :: "string \<Rightarrow> string"
  localeCompare :: "string \<Rightarrow> string \<Rightarrow> int"
  getNwoFromGitHubUrl :: "string \<Rightarrow> string option"
  isValidGitHubNwo :: "string \<Rightarrow> bool"
  credentials_getOctokit :: "error + octokit"
  AppOctokit :: octokit

definition ENOENT :: error where
  "ENOENT = Error ''ENOENT: no such file or directory''"

definition UriError :: error where
  "UriError = Error ''[UriError]''"

text \<open>\<^verbatim>\<open>remove\<close>, \<^verbatim>\<open>ensureDir\<close> and \<^verbatim>\<open>realpath\<close> of fs-extra, \<^verbatim>\<open>zip\<close> of zip-a-folder.\<close>

definition remove :: "env \<Rightarrow> path \<Rightarrow> world \<Rightarrow> (error + unit) \<times> world" where
  "remove env p w =
     (case remove_error env p of
        Some e \<Rightarrow> (Inl e, w)
      | None \<Rightarrow> (Inr (), w\<lparr>files := rm (files w) p\<rparr>))"

definition ensureDir :: "path \<Rightarrow> world \<Rightarrow> (error + unit) \<times> world" where
  "ensureDir p w =
     (case mkdirp (files w) p of
        None \<Rightarrow> (Inl (Error ''EEXIST: file already exists''), w)
      | Some fs \<Rightarrow> (Inr (), w\<lparr>files := fs\<rparr>))"

definition fs_realpath :: "fsnode \<Rightarrow> path \<Rightarrow> error + path" where
  "fs_realpath fs p = (if pathExists fs p then Inr p else Inl ENOENT)"

definition zip_folder :: "env \<Rightarrow> path \<Rightarrow> path \<Rightarrow> world \<Rightarrow> (error + unit) \<times> world" where
  "zip_folder env src dst w =
     (case lookup (files w) src of
        None \<Rightarrow> (Inl ENOENT, w)
      | Some t \<Rightarrow>
          (case zip_error env t of
             Some e \<Rightarrow> (Inl e, w)
           | None \<Rightarrow>
               (case put (files w) dst (Zip t) of
                  None \<Rightarrow> (Inl ENOENT, w)
                | Some fs \<Rightarrow> (Inr (), w\<lparr>files := fs\<rparr>))))"

text \<open>A string appended to a path, as in \<^verbatim>\<open>`${srcFolderPath}.zip`\<close>.\<close>

definition path_concat :: "path \<Rightarrow> string \<Rightarrow> path" where
  "path_concat p s = (if p = [] then [s] else butlast p @ [last p @ s])"

subsection \<open>validateUrl (lines 438-449) and isFile (lines 587-589)\<close>

definition validateUrl :: "env \<Rightarrow> string \<Rightarrow> error + unit" where
  "validateUrl env databaseUrl =
     (case Uri_parse env databaseUrl True of
        None \<Rightarrow> Inl (Error (''Invalid url: '' @ databaseUrl))
      | Some uri \<Rightarrow>
          if \<not> allowHttp env \<and> uri_scheme uri \<noteq> ''https''
          then Inl (Error ''Must use https for downloading a database.'')
          else Inr ())"

definition isFile :: "env \<Rightarrow> string \<Rightarrow> error + bool" where
  "isFile env databaseUrl =
     (case Uri_parse env databaseUrl False of
        None \<Rightarrow> Inl UriError
      | Some uri \<Rightarrow> Inr (uri_scheme uri = ''file''))"

subsection \<open>getStorageFolder (lines 411-436)\<close>

text \<open>
  \<^verbatim>\<open>
  let counter = 0;
  while (await pathExists(folderName)) {
    counter++;
    folderName = join(realpath, `${lastName}-${counter}`);
    if (counter > 100) {
      throw new Error("Could not find a unique name for downloaded database.");
    }
  }
  return folderName;
  \<close>
\<close>

function getStorageFolder_loop :: "fsnode \<Rightarrow> path \<Rightarrow> string \<Rightarrow> nat \<Rightarrow> path \<Rightarrow> error + path" where
  "getStorageFolder_loop fs realpath lastName counter folderName =
     (if pathExists fs folderName then
        (let counter' = counter + 1;
             folderName' = join realpath (lastName @ ''-'' @ string_of_nat counter')
         in if counter' > 100
            then Inl (Error ''Could not find a unique name for downloaded database.'')
            else getStorageFolder_loop fs realpath lastName counter' folderName')
      else Inr folderName)"
  by pat_completeness auto
termination
  by (relation "measure (\<lambda>(fs, realpath, lastName, counter, folderName). 101 - counter)") auto

declare getStorageFolder_loop.simps [simp del]

definition lastName_of :: "string \<Rightarrow> string" where
  "lastName_of url_path =
     (let lastName = take 250 (basename url_path)
      in if endsWith lastName ''.zip'' then take (length lastName - 4) lastName else lastName)"

definition getStorageFolder :: "env \<Rightarrow> fsnode \<Rightarrow> path \<Rightarrow> string \<Rightarrow> error + path" where
  "getStorageFolder env fs storagePath urlStr =
     (case Uri_parse env urlStr False of
        None \<Rightarrow> Inl UriError
      | Some url \<Rightarrow>
          (let lastName = lastName_of (uri_path url)
           in case fs_realpath fs storagePath of
                Inl e \<Rightarrow> Inl e
              | Inr realpath \<Rightarrow>
                  getStorageFolder_loop fs realpath lastName 0 (join realpath lastName)))"

subsection \<open>readAndUnzip (lines 451-465), checkForFailingResponse (lines 566-585)\<close>

text \<open>
  The callers of this file always pass the progress callback, so the optional calls
  \<^verbatim>\<open>progress?.(...)\<close> are calls. \<^verbatim>\<open>cli.databaseUnbundle\<close> reads the archive and, when
  it succeeds, has written the tree at \<open>unzipPath\<close>.
\<close>

definition readAndUnzip :: "env \<Rightarrow> string \<Rightarrow> path \<Rightarrow> world \<Rightarrow> (error + unit) \<times> world" where
  "readAndUnzip env zipUrl unzipPath w =
     (case Uri_parse env zipUrl False of
        None \<Rightarrow> (Inl UriError, w)
      | Some uri \<Rightarrow>
          (let zipFile = uri_fsPath uri;
               w1 = emit (Progress \<lparr>message = ''Unzipping into '' @ path_basename unzipPath,
                                    step = 9, maxStep = 10\<rparr>) w;
               w2 = emit (Unbundle zipFile unzipPath) w1
           in case cli_databaseUnbundle env (lookup (files w2) zipFile) of
                Inl e \<Rightarrow> (Inl e, w2)
              | Inr t \<Rightarrow>
                  (case put (files w2) unzipPath t of
                     None \<Rightarrow> (Inl ENOENT, w2)
                   | Some fs \<Rightarrow> (Inr (), w2\<lparr>files := fs\<rparr>))))"

definition first_truthy :: "string option list \<Rightarrow> string \<Rightarrow> string" where
  "first_truthy vs d = (case filter truthy vs of [] \<Rightarrow> d | v # _ \<Rightarrow> the v)"

definition checkForFailingResponse :: "env \<Rightarrow> response \<Rightarrow> string \<Rightarrow> error + response" where
  "checkForFailingResponse env response errorMessage =
     (if ok response then Inr response
      else
        (let text = response_text response;
             msg = (case JSON_parse env text of
                      Some obj \<Rightarrow> first_truthy [json_error obj, json_message obj, json_reason obj]
                                    (json_stringify obj)
                    | None \<Rightarrow> text)
         in Inl (Error (errorMessage @ ''.'' @ [CHR 0x0A, CHR 0x0A] @ ''Reason: '' @ msg))))"

subsection \<open>fetchAndUnzip (lines 467-564)\<close>

text \<open>
  The archive is streamed into a file of the temporary directory. When the stream breaks
  off, the handler throws after
  \<^verbatim>\<open>archiveFileStream.close(() => { void remove(archivePath); })\<close>: the removal is started
  only in the callback of \<^verbatim>\<open>close\<close>, which runs after the caller has received the error,
  and nobody awaits its outcome. So the function returns with the file in place and the
  removal deferred. After the unpacking, \<^verbatim>\<open>await remove(archivePath)\<close> is the last
  statement.

  \<open>settle\<close> is the world once the deferred removals have run, in the order in which they
  were deferred; one that fails leaves the file system as it is, and its error goes to
  nobody.
\<close>

definition defer_remove :: "path \<Rightarrow> world \<Rightarrow> world" where
  "defer_remove p w = w\<lparr>deferred := deferred w @ [p]\<rparr>"

fun run_deferred :: "env \<Rightarrow> path list \<Rightarrow> fsnode \<Rightarrow> fsnode" where
  "run_deferred env [] fs = fs"
| "run_deferred env (p # ps) fs =
     run_deferred env ps (case remove_error env p of Some e \<Rightarrow> fs | None \<Rightarrow> rm fs p)"

definition settle :: "env \<Rightarrow> world \<Rightarrow> world" where
  "settle env w = w\<lparr>files := run_deferred env (deferred w) (files w), deferred := []\<rparr>"

definition emit_all :: "progress list \<Rightarrow> world \<Rightarrow> world" where
  "emit_all ps w = w\<lparr>trace := trace w @ map Progress ps\<rparr>"

definition write_partial :: "path \<Rightarrow> world \<Rightarrow> world" where
  "write_partial p w = (case put (files w) p File of None \<Rightarrow> w | Some fs \<Rightarrow> w\<lparr>files := fs\<rparr>)"

definition archivePath_of :: "env \<Rightarrow> path" where
  "archivePath_of env = join (tmpDir env) (''archive-'' @ string_of_nat (now env) @ ''.zip'')"

definition fetchAndUnzip ::
  "env \<Rightarrow> string \<Rightarrow> (string \<times> string) list \<Rightarrow> path \<Rightarrow> world \<Rightarrow> (error + unit) \<times> world" where
  "fetchAndUnzip env databaseUrl requestHeaders unzipPath w =
     (let archivePath = archivePath_of env;
          w1 = emit (Progress \<lparr>message = ''Downloading database'', step = 1, maxStep = 3\<rparr>) w;
          w2 = emit (Fetch databaseUrl requestHeaders) w1
      in case (case fetch env databaseUrl requestHeaders of
                 Inl e \<Rightarrow> Inl e
               | Inr r \<Rightarrow> checkForFailingResponse env r ''Error downloading database'') of
           Inl e \<Rightarrow>
             (Inl (if instanceofAbortError e then AbortError ''The request timed out.'' else e), w2)
         | Inr response \<Rightarrow>
             (let w3 = emit_all (reportStreamProgress env response ''Downloading database''
                                   (content_length response)) w2
              in case (case body response of
                         Inl e \<Rightarrow> (Inl e, write_partial archivePath w3)
                       | Inr content \<Rightarrow>
                           (case put (files w3) archivePath content of
                              None \<Rightarrow> (Inl ENOENT, w3)
                            | Some fs \<Rightarrow> (Inr (), w3\<lparr>files := fs\<rparr>))) of
                   (Inl e, w4) \<Rightarrow>
                     (Inl (if instanceofAbortError e then AbortError ''The download timed out.'' else e),
                      defer_remove archivePath w4)
                 | (Inr u, w4) \<Rightarrow>
                     (case readAndUnzip env (Uri_file env archivePath) unzipPath w4 of
                        (Inl e, w5) \<Rightarrow> (Inl e, w5)
                      | (Inr u, w5) \<Rightarrow> remove env archivePath w5)))"

subsection \<open>ensureZippedSourceLocation (lines 721-729)\<close>

definition ensureZippedSourceLocation :: "env \<Rightarrow> path \<Rightarrow> world \<Rightarrow> (error + unit) \<times> world" where
  "ensureZippedSourceLocation env databasePath w =
     (let srcFolderPath = join databasePath ''src'';
          srcZipPath = path_concat srcFolderPath ''.zip''
      in if pathExists (files w) srcFolderPath \<and> \<not> pathExists (files w) srcZipPath then
           (case zip_folder env srcFolderPath srcZipPath w of
              (Inl e, w1) \<Rightarrow> (Inl e, w1)
            | (Inr u, w1) \<Rightarrow> remove env srcFolderPath w1)
         else (Inr (), w))"

subsection \<open>databaseArchiveFetcher (lines 347-409)\<close>

text \<open>
  The body in two parts: up to the unpacking (lines 359-374), which gives the folder of
  the unpacked archive, and from there (lines 376-408). \<open>storagePath\<close> is \<open>None\<close> for a
  falsy string.
\<close>

definition acquireAndUnpack ::
  "env \<Rightarrow> string \<Rightarrow> (string \<times> string) list \<Rightarrow> path option \<Rightarrow> world \<Rightarrow> (error + path) \<times> world" where
  "acquireAndUnpack env databaseUrl requestHeaders storagePath w =
     (let w1 = emit (Progress \<lparr>message = ''Getting database'', step = 1, maxStep = 4\<rparr>) w
      in case storagePath of
           None \<Rightarrow> (Inl (Error ''No storage path specified.''), w1)
         | Some storagePath \<Rightarrow>
             (case ensureDir storagePath w1 of
                (Inl e, w2) \<Rightarrow> (Inl e, w2)
              | (Inr u, w2) \<Rightarrow>
                  (case getStorageFolder env (files w2) storagePath databaseUrl of
                     Inl e \<Rightarrow> (Inl e, w2)
                   | Inr unzipPath \<Rightarrow>
                       (case isFile env databaseUrl of
                          Inl e \<Rightarrow> (Inl e, w2)
                        | Inr local \<Rightarrow>
                            (case (if local then readAndUnzip env databaseUrl unzipPath w2
                                   else fetchAndUnzip env databaseUrl requestHeaders unzipPath w2) of
                               (Inl e, w3) \<Rightarrow> (Inl e, w3)
                             | (Inr u, w3) \<Rightarrow> (Inr unzipPath, w3))))))"

definition openDatabase ::
  "env \<Rightarrow> path \<Rightarrow> origin \<Rightarrow> bool \<Rightarrow> string option \<Rightarrow> bool \<Rightarrow> world \<Rightarrow> (error + database_item) \<times> world" where
  "openDatabase env dbPath origin makeSelected nameOverride addSourceArchiveFolder w =
     (let item = \<lparr>databaseUri = dbPath, item_origin = origin, item_makeSelected = makeSelected,
                   item_nameOverride = nameOverride,
                   item_addSourceArchiveFolder = addSourceArchiveFolder\<rparr>;
          w1 = emit (OpenDatabase item) w
      in case openDatabase_error env dbPath of
           Some e \<Rightarrow> (Inl e, w1)
         | None \<Rightarrow> (Inr item, w1))"

definition locateAndRegister ::
  "env \<Rightarrow> path \<Rightarrow> string option \<Rightarrow> origin \<Rightarrow> bool \<Rightarrow> bool \<Rightarrow> world \<Rightarrow> (error + database_item) \<times> world" where
  "locateAndRegister env unzipPath nameOverride origin makeSelected addSourceArchiveFolder w =
     (let w1 = emit (Progress \<lparr>message = ''Opening database'', step = 3, maxStep = 4\<rparr>) w
      in case lookup (files w1) unzipPath of
           None \<Rightarrow> (Inl ENOENT, w1)
         | Some t \<Rightarrow>
             (case findDirWithFile unzipPath t [''.dbinfo'', ''codeql-database.yml''] of
                None \<Rightarrow> (Inl (Error ''Database not found in archive.''), w1)
              | Some dbPath \<Rightarrow>
                  (let w2 = emit (Progress \<lparr>message = ''Validating and fixing source location'',
                                           step = 4, maxStep = 4\<rparr>) w1
                   in case ensureZippedSourceLocation env dbPath w2 of
                        (Inl e, w3) \<Rightarrow> (Inl e, w3)
                      | (Inr u, w3) \<Rightarrow>
                          openDatabase env dbPath origin makeSelected nameOverride
                            addSourceArchiveFolder w3)))"

definition databaseArchiveFetcher ::
  "env \<Rightarrow> string \<Rightarrow> (string \<times> string) list \<Rightarrow> path option \<Rightarrow> string option \<Rightarrow> origin \<Rightarrow>
   bool \<Rightarrow> bool \<Rightarrow> world \<Rightarrow> (error + database_item) \<times> world" where
  "databaseArchiveFetcher env databaseUrl requestHeaders storagePath nameOverride origin
     makeSelected addSourceArchiveFolder w =
     (case acquireAndUnpack env databaseUrl requestHeaders storagePath w of
        (Inl e, w1) \<Rightarrow> (Inl e, w1)
      | (Inr unzipPath, w1) \<Rightarrow>
          locateAndRegister env unzipPath nameOverride origin makeSelected
            addSourceArchiveFolder w1)"

subsection \<open>promptForLanguage (lines 675-708)\<close>

text \<open>
  \<^verbatim>\<open>Array.prototype.sort\<close> with a comparison function is stable: an element goes before
  the first one that does not compare smaller.
\<close>

fun insort_by :: "('a \<Rightarrow> 'a \<Rightarrow> int) \<Rightarrow> 'a \<Rightarrow> 'a list \<Rightarrow> 'a list" where
  "insort_by cmp x [] = [x]"
| "insort_by cmp x (y # ys) = (if cmp x y \<le> 0 then x # y # ys else y # insort_by cmp x ys)"

definition sort_by :: "('a \<Rightarrow> 'a \<Rightarrow> int) \<Rightarrow> 'a list \<Rightarrow> 'a list" where
  "sort_by cmp xs = foldr (insort_by cmp) xs []"

definition language_items :: "env \<Rightarrow> string list \<Rightarrow> quick_pick_item list" where
  "language_items env languages =
     sort_by (\<lambda>a b. localeCompare env (label a) (label b))
       (map (\<lambda>language. \<lparr>label = getLanguageDisplayName env language,
                           description = language, item_language = language\<rparr>) languages)"

definition promptForLanguage :: "env \<Rightarrow> string list \<Rightarrow> world \<Rightarrow> (error + string option) \<times> world" where
  "promptForLanguage env languages w =
     (let w1 = emit (Progress \<lparr>message = ''Choose language'', step = 2, maxStep = 2\<rparr>) w
      in if length languages = 0 then (Inl (Error ''No databases found''), w1)
         else if length languages = 1 then (Inr (Some (languages ! 0)), w1)
         else
           (let items = language_items env languages;
                w2 = emit (QuickPick items) w1
            in case showQuickPick env items of
                 None \<Rightarrow> (Inr None, w2)
               | Some selectedItem \<Rightarrow> (Inr (Some (item_language selectedItem)), w2)))"

subsection \<open>convertGithubNwoToDatabaseUrl (lines 621-673)\<close>

record database_url =
  res_databaseUrl :: string
  res_owner :: string
  res_name :: "string option"
  res_databaseId :: nat
  res_databaseCreatedAt :: string
  res_commitOid :: "string option"

definition quoted :: "string \<Rightarrow> string" where
  "quoted s = [CHR 0x27] @ s @ [CHR 0x27]"

text \<open>The condition \<^verbatim>\<open>!language || !languages.includes(language)\<close>.\<close>

definition needs_prompt :: "string option \<Rightarrow> string list \<Rightarrow> bool" where
  "needs_prompt language languages =
     (case language of None \<Rightarrow> True | Some l \<Rightarrow> l = [] \<or> \<not> list_includes languages l)"

text \<open>
  \<^verbatim>\<open>const [owner, repo] = nwo.split("/")\<close>: \<open>repo\<close> is undefined when the name holds
  no slash.
\<close>

definition nwo_owner :: "string \<Rightarrow> string" where
  "nwo_owner nwo = hd (split CHR ''/'' nwo)"

definition nwo_repo :: "string \<Rightarrow> string option" where
  "nwo_repo nwo =
     (let parts = split CHR ''/'' nwo in if 1 < length parts then Some (parts ! 1) else None)"

text \<open>
  The body of the \<^verbatim>\<open>try\<close> block. The test \<^verbatim>\<open>if (!language) return\<close> stands in the
  branch that has prompted; in the other branch the language is truthy.
\<close>

definition convertGithubNwoToDatabaseUrl_try ::
  "env \<Rightarrow> string \<Rightarrow> octokit \<Rightarrow> string option \<Rightarrow> world \<Rightarrow> (error + database_url option) \<times> world" where
  "convertGithubNwoToDatabaseUrl_try env nwo octokit language w =
     (let owner = nwo_owner nwo;
          repo = nwo_repo nwo;
          w1 = emit (ListCodeqlDatabases owner repo) w
      in case listCodeqlDatabases octokit owner repo of
           Inl e \<Rightarrow> (Inl e, w1)
         | Inr data \<Rightarrow>
             (let languages = map db_language data
              in case (if needs_prompt language languages
                       then promptForLanguage env languages w1
                       else (Inr language, w1)) of
                   (Inl e, w2) \<Rightarrow> (Inl e, w2)
                 | (Inr chosen, w2) \<Rightarrow>
                     if \<not> truthy chosen then (Inr None, w2)
                     else
                       (case find (\<lambda>db. db_language db = the chosen) data of
                          None \<Rightarrow>
                            (Inl (Error (''No database found for language '' @ quoted (the chosen))),
                             w2)
                        | Some databaseForLanguage \<Rightarrow>
                            (Inr (Some \<lparr>res_databaseUrl = db_url databaseForLanguage,
                                        res_owner = owner, res_name = repo,
                                        res_databaseId = db_id databaseForLanguage,
                                        res_databaseCreatedAt = db_created_at databaseForLanguage,
                                        res_commitOid = db_commit_oid databaseForLanguage\<rparr>),
                             w2))))"

definition convertGithubNwoToDatabaseUrl ::
  "env \<Rightarrow> string \<Rightarrow> octokit \<Rightarrow> string option \<Rightarrow> world \<Rightarrow> (error + database_url option) \<times> world" where
  "convertGithubNwoToDatabaseUrl env nwo octokit language w =
     (case convertGithubNwoToDatabaseUrl_try env nwo octokit language w of
        (Inl e, w1) \<Rightarrow>
          (Inl (Error (''Unable to get database for '' @ quoted nwo)),
           emit (Log (''Error: '' @ getErrorMessage e)) w1)
      | (Inr result, w1) \<Rightarrow> (Inr result, w1))"

subsection \<open>The exported operations\<close>

text \<open>\<^verbatim>\<open>downloadGitHubDatabaseFromUrl\<close> (lines 233-280).\<close>

definition downloadGitHubDatabaseFromUrl ::
  "env \<Rightarrow> string \<Rightarrow> nat \<Rightarrow> string \<Rightarrow> string option \<Rightarrow> string \<Rightarrow> string option \<Rightarrow> octokit \<Rightarrow>
   path option \<Rightarrow> bool \<Rightarrow> bool \<Rightarrow> world \<Rightarrow> (error + database_item option) \<times> world" where
  "downloadGitHubDatabaseFromUrl env databaseUrl databaseId databaseCreatedAt commitOid owner name
     octokit storagePath makeSelected addSourceArchiveFolder w =
     (let w1 = emit Auth w;
          octokitToken = auth octokit;
          repository = owner @ ''/'' @ template name
      in case databaseArchiveFetcher env databaseUrl
                [(''Accept'', ''application/zip''),
                 (''Authorization'',
                  if truthy octokitToken then ''Bearer '' @ the octokitToken else [])]
                storagePath (Some repository)
                (OriginGithub repository databaseId databaseCreatedAt commitOid)
                makeSelected addSourceArchiveFolder w1 of
           (Inl e, w2) \<Rightarrow> (Inl e, w2)
         | (Inr item, w2) \<Rightarrow> (Inr (Some item), w2))"

text \<open>\<^verbatim>\<open>downloadGitHubDatabase\<close> (lines 181-231).\<close>

definition downloadGitHubDatabase ::
  "env \<Rightarrow> string \<Rightarrow> path option \<Rightarrow> string option \<Rightarrow> bool \<Rightarrow> bool \<Rightarrow> world \<Rightarrow>
   (error + database_item option) \<times> world" where
  "downloadGitHubDatabase env githubRepo storagePath language makeSelected addSourceArchiveFolder w =
     (let nwo = (case getNwoFromGitHubUrl env githubRepo of
                   None \<Rightarrow> githubRepo
                 | Some n \<Rightarrow> if n = [] then githubRepo else n)
      in if \<not> isValidGitHubNwo env nwo
         then (Inl (Error (''Invalid GitHub repository: '' @ githubRepo)), w)
         else
           (case (if isCanary env
                  then (case credentials_getOctokit env of
                          Inl e \<Rightarrow> (Inl e, emit GetOctokit w)
                        | Inr octokit \<Rightarrow> (Inr octokit, emit GetOctokit w))
                  else (Inr (AppOctokit env), w)) of
              (Inl e, w1) \<Rightarrow> (Inl e, w1)
            | (Inr octokit, w1) \<Rightarrow>
                (case convertGithubNwoToDatabaseUrl env nwo octokit language w1 of
                   (Inl e, w2) \<Rightarrow> (Inl e, w2)
                 | (Inr None, w2) \<Rightarrow> (Inr None, w2)
                 | (Inr (Some result), w2) \<Rightarrow>
                     downloadGitHubDatabaseFromUrl env (res_databaseUrl result)
                       (res_databaseId result) (res_databaseCreatedAt result)
                       (res_commitOid result) (res_owner result) (res_name result) octokit
                       storagePath makeSelected addSourceArchiveFolder w2)))"

text \<open>\<^verbatim>\<open>promptImportInternetDatabase\<close> (lines 49-87).\<close>

definition promptImportInternetDatabase ::
  "env \<Rightarrow> path option \<Rightarrow> world \<Rightarrow> (error + database_item option) \<times> world" where
  "promptImportInternetDatabase env storagePath w =
     (let prompt = ''Enter URL of zipfile of database to download'';
          w1 = emit (InputBox prompt) w;
          databaseUrl = showInputBox env prompt
      in if \<not> truthy databaseUrl then (Inr None, w1)
         else
           (case validateUrl env (the databaseUrl) of
              Inl e \<Rightarrow> (Inl e, w1)
            | Inr u \<Rightarrow>
                (case databaseArchiveFetcher env (the databaseUrl) [] storagePath None
                        (OriginUrl (the databaseUrl)) True (addDatabaseSourceToWorkspace env) w1 of
                   (Inl e, w2) \<Rightarrow> (Inl e, w2)
                 | (Inr item, w2) \<Rightarrow>
                     (Inr (Some item),
                      emit (InformationMessage ''Database downloaded and imported successfully.'')
                        (emit (ExecuteCommand ''codeQLDatabases.focus'') w2)))))"

text \<open>\<^verbatim>\<open>importArchiveDatabase\<close> (lines 290-330).\<close>

definition importArchiveDatabase ::
  "env \<Rightarrow> string \<Rightarrow> path option \<Rightarrow> world \<Rightarrow> (error + database_item option) \<times> world" where
  "importArchiveDatabase env databaseUrl storagePath w =
     (case databaseArchiveFetcher env databaseUrl [] storagePath None (OriginArchive databaseUrl)
             True (addDatabaseSourceToWorkspace env) w of
        (Inl e, w1) \<Rightarrow>
          (if str_includes (getErrorMessage e) ''unexpected end of file''
           then (Inl (Error (''Database is corrupt or too large. Try unzipping outside of VS Code ''
                             @ ''and importing the unzipped folder instead.'')), w1)
           else (Inl e, w1))
      | (Inr item, w1) \<Rightarrow>
          (Inr (Some item),
           emit (InformationMessage ''Database unzipped and imported successfully.'')
             (emit (ExecuteCommand ''codeQLDatabases.focus'') w1)))"



subsection \<open>Notions of the specification\<close>

text \<open>
  The folder names that \<^verbatim>\<open>getStorageFolder\<close> tries, in this order: the plain name for
  \<open>k = 0\<close>, then the name with the counter \<open>k\<close>.
\<close>

definition candidate :: "path \<Rightarrow> string \<Rightarrow> nat \<Rightarrow> path" where
  "candidate realpath lastName k =
     join realpath (if k = 0 then lastName else lastName @ ''-'' @ string_of_nat k)"

definition name_error :: error where
  "name_error = Error ''Could not find a unique name for downloaded database.''"

text \<open>
  How many of the names exist before the first one that does not, among the 101 names
  from the plain one to the one with the counter 100.
\<close>

definition collisions :: "fsnode \<Rightarrow> path \<Rightarrow> string \<Rightarrow> nat" where
  "collisions fs realpath lastName =
     length (takeWhile (\<lambda>k. pathExists fs (candidate realpath lastName k)) [0..<101])"

definition srcFolderPath_of :: "path \<Rightarrow> path" where
  "srcFolderPath_of databasePath = join databasePath ''src''"

definition srcZipPath_of :: "path \<Rightarrow> path" where
  "srcZipPath_of databasePath = path_concat (join databasePath ''src'') ''.zip''"


subsection \<open>Collaborators and worlds for the examples\<close>

text \<open>
  A parser for strings of the form \<^verbatim>\<open>scheme://authority/path\<close>; in strict mode a string
  without scheme is rejected, otherwise it is a file path. An unbundler that extracts zip
  archives and fails on any other file.
\<close>

definition example_parse :: "string \<Rightarrow> bool \<Rightarrow> uri option" where
  "example_parse s strict =
     (let scheme = takeWhile (\<lambda>c. c \<noteq> CHR '':'') s;
          rest = drop (length scheme) s
      in if startsWith rest ''://'' \<and> scheme \<noteq> [] then
           (let p = dropWhile (\<lambda>c. c \<noteq> CHR ''/'') (drop 3 rest)
            in Some \<lparr>uri_scheme = scheme, uri_path = p,
                     uri_fsPath = filter (\<lambda>c. c \<noteq> []) (split CHR ''/'' p)\<rparr>)
         else if strict then None
         else Some \<lparr>uri_scheme = ''file'', uri_path = s,
                    uri_fsPath = filter (\<lambda>c. c \<noteq> []) (split CHR ''/'' s)\<rparr>)"

definition example_unbundle :: "fsnode option \<Rightarrow> error + fsnode" where
  "example_unbundle a =
     (case a of Some (Zip t) \<Rightarrow> Inr t | _ \<Rightarrow> Inl (Error ''unexpected end of file''))"

definition example_data :: "codeql_database list" where
  "example_data =
     [\<lparr>db_language = ''python'', db_url = ''https://api.github.com/db/1'', db_id = 1,
       db_created_at = ''2024-01-01'', db_commit_oid = None\<rparr>,
      \<lparr>db_language = ''java'', db_url = ''https://api.github.com/db/2'', db_id = 2,
       db_created_at = ''2024-01-02'', db_commit_oid = Some ''abc''\<rparr>]"

definition example_octokit :: "codeql_database list \<Rightarrow> octokit" where
  "example_octokit data = \<lparr>listCodeqlDatabases = (\<lambda>owner repo. Inr data), auth = None\<rparr>"

definition example_db :: fsnode where
  "example_db =
     Dir [(''nested'', Dir [(''.dbinfo'', File), (''src'', Dir [(''Main.java'', File)])])]"

definition example_db_both :: fsnode where
  "example_db_both =
     Dir [(''nested'', Dir [(''.dbinfo'', File), (''src'', Dir [(''Main.java'', File)]),
                            (''src.zip'', Zip (Dir []))])]"

definition example_env :: env where
  "example_env =
     \<lparr>allowHttp = False, isCanary = False, addDatabaseSourceToWorkspace = True,
      Uri_parse = example_parse,
      Uri_file = (\<lambda>p. ''file://'' @ concat (map (\<lambda>c. ''/'' @ c) p)),
      tmpDir = [''tmp''], now = 17,
      fetch = (\<lambda>url headers. Inr \<lparr>ok = True, response_text = [], content_length = None,
                                   body = Inr (Zip example_db)\<rparr>),
      JSON_parse = (\<lambda>s. None),
      reportStreamProgress = (\<lambda>r m n. []),
      cli_databaseUnbundle = example_unbundle,
      zip_error = (\<lambda>t. None), remove_error = (\<lambda>p. None), openDatabase_error = (\<lambda>p. None),
      showInputBox = (\<lambda>p. None), showQuickPick = (\<lambda>items. None),
      getLanguageDisplayName = (\<lambda>l. l), localeCompare = (\<lambda>a b. 0),
      getNwoFromGitHubUrl = (\<lambda>s. None),
      isValidGitHubNwo = (\<lambda>s. length (split CHR ''/'' s) = 2),
      credentials_getOctokit = Inr (example_octokit example_data),
      AppOctokit = example_octokit example_data\<rparr>"

definition markers :: "string list" where
  "markers = [''.dbinfo'', ''codeql-database.yml'']"

definition example_world :: "fsnode \<Rightarrow> world" where
  "example_world archive =
     \<lparr>files = Dir [(''tmp'', Dir [(''db.zip'', archive)]), (''storage'', Dir [])], trace = [],
      deferred = []\<rparr>"

definition storage3 :: fsnode where
  "storage3 = Dir [(''storage'', Dir [(''db'', Dir []), (''db-1'', Dir []), (''db-2'', Dir [])])]"

text \<open>A storage folder that holds \<^verbatim>\<open>db\<close>, \<^verbatim>\<open>db-1\<close>, ... : \<open>n\<close> folders.\<close>

definition numbered :: "nat \<Rightarrow> string" where
  "numbered k = (if k = 0 then ''db'' else ''db-'' @ string_of_nat k)"

definition storage_with :: "nat \<Rightarrow> fsnode" where
  "storage_with n = Dir [(''storage'', Dir (map (\<lambda>k. (numbered k, Dir [])) [0..<n]))]"

text \<open>The unpacked example database below the storage folder, before and after the zipping.\<close>

definition unpacked_world :: world where
  "unpacked_world =
     \<lparr>files = Dir [(''storage'', Dir [(''db'', example_db)])], trace = [], deferred = []\<rparr>"

definition zipped_world :: world where
  "zipped_world =
     \<lparr>files = Dir [(''storage'', Dir [(''db'', Dir [(''nested'',
         Dir [(''.dbinfo'', File), (''src.zip'', Zip (Dir [(''Main.java'', File)]))])])])],
      trace = [], deferred = []\<rparr>"

text \<open>
  The import of the local archive \<^verbatim>\<open>/tmp/db.zip\<close> into the empty folder \<^verbatim>\<open>/storage\<close>,
  for an archive with a loose \<^verbatim>\<open>src\<close> only and for one with \<^verbatim>\<open>src\<close> and \<^verbatim>\<open>src.zip\<close>.
\<close>

definition archive_origin :: origin where
  "archive_origin = OriginArchive ''file:///tmp/db.zip''"

definition nested_item :: database_item where
  "nested_item = \<lparr>databaseUri = [''storage'', ''db'', ''nested''], item_origin = archive_origin,
      item_makeSelected = True, item_nameOverride = None, item_addSourceArchiveFolder = True\<rparr>"

definition import_local :: "fsnode \<Rightarrow> (error + database_item) \<times> world" where
  "import_local archive =
     databaseArchiveFetcher example_env ''file:///tmp/db.zip'' [] (Some [''storage'']) None
       archive_origin True True (example_world archive)"

definition unpack_local :: "fsnode \<Rightarrow> (error + path) \<times> world" where
  "unpack_local archive =
     acquireAndUnpack example_env ''file:///tmp/db.zip'' [] (Some [''storage''])
       (example_world archive)"

text \<open>The download of a GitHub database whose URL is not an https URL.\<close>

definition http_url :: string where
  "http_url = ''http://example.com/db.zip''"

definition github_headers :: "(string \<times> string) list" where
  "github_headers = [(''Accept'', ''application/zip''), (''Authorization'', [])]"

definition github_item :: database_item where
  "github_item = \<lparr>databaseUri = [''storage'', ''db'', ''nested''],
      item_origin = OriginGithub ''octo/repo'' 1 ''2024-01-01'' None, item_makeSelected = True,
      item_nameOverride = Some ''octo/repo'', item_addSourceArchiveFolder = True\<rparr>"

definition github_run :: "(error + database_item option) \<times> world" where
  "github_run =
     downloadGitHubDatabaseFromUrl example_env http_url 1 ''2024-01-01'' None ''octo''
       (Some ''repo'') (example_octokit example_data) (Some [''storage'']) True True
       (example_world File)"

definition url_prompt :: string where
  "url_prompt = ''Enter URL of zipfile of database to download''"

definition must_use_https :: error where
  "must_use_https = Error ''Must use https for downloading a database.''"

text \<open>What the resolver returns for an entry of the list.\<close>

definition resolved :: "string \<Rightarrow> codeql_database \<Rightarrow> database_url" where
  "resolved nwo db =
     \<lparr>res_databaseUrl = db_url db, res_owner = nwo_owner nwo, res_name = nwo_repo nwo,
      res_databaseId = db_id db, res_databaseCreatedAt = db_created_at db,
      res_commitOid = db_commit_oid db\<rparr>"

definition listing :: "string \<Rightarrow> event" where
  "listing nwo = ListCodeqlDatabases (nwo_owner nwo) (nwo_repo nwo)"

definition choose_language :: event where
  "choose_language = Progress \<lparr>message = ''Choose language'', step = 2, maxStep = 2\<rparr>"

text \<open>A picker that answers with a language that is not in the list, a client whose request fails.\<close>

definition go_item :: quick_pick_item where
  "go_item = \<lparr>label = ''Go'', description = ''go'', item_language = ''go''\<rparr>"

definition env_go :: env where
  "env_go = example_env\<lparr>showQuickPick := (\<lambda>items. Some go_item)\<rparr>"

definition failing_octokit :: octokit where
  "failing_octokit =
     \<lparr>listCodeqlDatabases = (\<lambda>owner repo. Inl (Error ''Not Found'')), auth = None\<rparr>"

definition python_db :: codeql_database where
  "python_db = \<lparr>db_language = ''python'', db_url = ''https://api.github.com/db/1'', db_id = 1,
       db_created_at = ''2024-01-01'', db_commit_oid = None\<rparr>"

definition java_db :: codeql_database where
  "java_db = \<lparr>db_language = ''java'', db_url = ''https://api.github.com/db/2'', db_id = 2,
       db_created_at = ''2024-01-02'', db_commit_oid = Some ''abc''\<rparr>"

definition language_item :: "string \<Rightarrow> quick_pick_item" where
  "language_item l = \<lparr>label = l, description = l, item_language = l\<rparr>"

definition unable :: "string \<Rightarrow> error" where
  "unable nwo = Error (''Unable to get database for '' @ quoted nwo)"

definition no_database_for :: "string \<Rightarrow> error" where
  "no_database_for l = Error (''No database found for language '' @ quoted l)"

text \<open>The relabelling of a timeout in the handlers of \<^verbatim>\<open>fetchAndUnzip\<close>.\<close>

definition relabel :: "string \<Rightarrow> error \<Rightarrow> error" where
  "relabel m e = (if instanceofAbortError e then AbortError m else e)"


definition downloading_database :: progress where
  "downloading_database = \<lparr>message = ''Downloading database'', step = 1, maxStep = 3\<rparr>"




text \<open>
  Servers for the examples: one whose request times out, one whose stream breaks off, one
  that delivers a file that is no archive; and a file system that refuses every removal.
\<close>

definition env_timeout :: env where
  "env_timeout = example_env\<lparr>fetch := (\<lambda>url headers. Inl (AbortError ''aborted''))\<rparr>"

definition env_broken_stream :: env where
  "env_broken_stream =
     example_env\<lparr>fetch := (\<lambda>url headers.
        Inr \<lparr>ok = True, response_text = [], content_length = None,
             body = Inl (Error ''socket hang up'')\<rparr>)\<rparr>"

definition env_bad_archive :: env where
  "env_bad_archive =
     example_env\<lparr>fetch := (\<lambda>url headers.
        Inr \<lparr>ok = True, response_text = [], content_length = None, body = Inr File\<rparr>)\<rparr>"

definition env_locked :: env where
  "env_locked =
     example_env\<lparr>remove_error := (\<lambda>p. Some (Error ''EBUSY: resource busy or locked''))\<rparr>"

definition https_url :: string where
  "https_url = ''https://example.com/db.zip''"

definition fetch_run :: "env \<Rightarrow> (error + unit) \<times> world" where
  "fetch_run env = fetchAndUnzip env https_url [] [''storage'', ''db''] (example_world File)"

text \<open>A server that answers with a failing status, and a temporary directory that is not there.\<close>

definition env_not_found :: env where
  "env_not_found =
     example_env\<lparr>fetch := (\<lambda>url headers.
        Inr \<lparr>ok = False, response_text = ''Not Found'', content_length = None,
             body = Inr File\<rparr>)\<rparr>"

definition not_found_error :: error where
  "not_found_error =
     Error (''Error downloading database.'' @ [CHR 0x0A, CHR 0x0A] @ ''Reason: Not Found'')"

definition env_no_tmp :: env where
  "env_no_tmp = example_env\<lparr>tmpDir := [''missing'']\<rparr>"













section \<open>Properties\<close>

subsection \<open>Basic facts\<close>

lemma list_includes_iff: "list_includes xs x \<longleftrightarrow> x \<in> set xs"
  by (simp add: list_includes_def)

text \<open>What \<open>rm\<close> has removed is not there; a report or another event leaves the files.\<close>

lemma lookup_rm_same: "p \<noteq> [] \<Longrightarrow> lookup (rm t p) p = None"
proof (induction t p rule: rm.induct)
  case (1 cs n)
  show ?case by (simp add: delete_conv')
next
  case (2 cs n v va)
  then show ?case by (cases "map_of cs n") (simp_all add: update_conv')
qed (auto simp: neq_Nil_conv)

lemma lookup_put_same: "put t p v = Some t' \<Longrightarrow> lookup t' p = Some v"
proof (induction t p v arbitrary: t' rule: put.induct)
  case (2 cs n v)
  then show ?case by (auto simp: update_conv')
next
  case (3 cs n m p v)
  then show ?case by (auto simp: update_conv' split: option.splits)
qed simp_all

lemma lookup_rm_sibling: "a \<noteq> b \<Longrightarrow> lookup (rm t (d @ [a])) (d @ [b]) = lookup t (d @ [b])"
proof (induction d arbitrary: t)
  case Nil
  then show ?case by (cases t) (simp_all add: delete_conv')
next
  case (Cons n d)
  obtain x xs where c: "d @ [a] = x # xs" by (cases d) auto
  show ?case
  proof (cases t)
    case (Dir cs)
    then show ?thesis
      using Cons c by (cases "map_of cs n") (simp_all add: update_conv')
  qed simp_all
qed

lemma files_emit: "files (emit e w) = files w"
  by (simp add: emit_def)

text \<open>The definitions that the examples unfold.\<close>

lemmas example_defs = example_world_def example_env_def example_db_def example_db_both_def
  example_octokit_def example_data_def example_unbundle_def example_parse_def

lemmas pipeline_defs = importArchiveDatabase_def databaseArchiveFetcher_def acquireAndUnpack_def
  locateAndRegister_def ensureDir_def getStorageFolder_def isFile_def readAndUnzip_def
  fetchAndUnzip_def emit_def emit_all_def ensureZippedSourceLocation_def openDatabase_def
  zip_folder_def remove_def defer_remove_def fs_realpath_def pathExists_def lastName_of_def
  basename_def endsWith_def join_def path_concat_def path_basename_def archivePath_of_def
  some_def list_includes_def checkForFailingResponse_def write_partial_def
  getStorageFolder_loop.simps string_of_nat.simps digit_def srcFolderPath_of_def srcZipPath_of_def

subsection \<open>The search for the database root\<close>

lemma some_list_includes_iff:
  "some (\<lambda>file. list_includes (map fst cs) file) toFind
   \<longleftrightarrow> (\<exists>file \<in> set toFind. file \<in> fst ` set cs)"
  by (auto simp: some_def list_includes_def list_ex_iff)

text \<open>The search returns the first directory with a marker, in depth-first pre-order.\<close>

lemma find_is_first_marker:
  "findDirWithFile dir t toFind = (case markerDirs dir t toFind of [] \<Rightarrow> None | d # ds \<Rightarrow> Some d)"
  "findInFiles dir cs toFind = (case markerDirsIn dir cs toFind of [] \<Rightarrow> None | d # ds \<Rightarrow> Some d)"
  by (induction dir t toFind and dir cs toFind rule: findDirWithFile_findInFiles.induct)
     (auto simp: some_list_includes_iff split: list.splits option.splits)

lemma findInFiles_firstResult:
  "findInFiles dir cs toFind
   = firstResult (map (\<lambda>(file, c). findDirWithFile (join dir file) c toFind) cs)"
  by (induction cs) (auto split: option.splits)

text \<open>
  Claim C1. \<^verbatim>\<open>findDirWithFile\<close> descends depth-first. A directory with an entry named
  like one of the markers is returned at once, whatever lies below it. Otherwise the
  result is the first non-empty result of the search in its entries, in the order of the
  listing. On a tree with exactly one directory that has a marker the result is that
  directory, on a tree with none it is "not found", and so it is on anything that is not
  a directory.
\<close>

theorem findDirWithFile_depth_first:
  "((\<exists>file \<in> set toFind. file \<in> fst ` set cs) \<longrightarrow> findDirWithFile dir (Dir cs) toFind = Some dir)
   \<and> (\<not> (\<exists>file \<in> set toFind. file \<in> fst ` set cs) \<longrightarrow>
        findDirWithFile dir (Dir cs) toFind
        = firstResult (map (\<lambda>(file, c). findDirWithFile (join dir file) c toFind) cs))
   \<and> (markerDirs dir t toFind = [d] \<longrightarrow> findDirWithFile dir t toFind = Some d)
   \<and> (markerDirs dir t toFind = [] \<longrightarrow> findDirWithFile dir t toFind = None)
   \<and> findDirWithFile dir File toFind = None
   \<and> findDirWithFile dir (Zip a) toFind = None"
proof (intro conjI impI)
  assume "\<exists>file \<in> set toFind. file \<in> fst ` set cs"
  then show "findDirWithFile dir (Dir cs) toFind = Some dir"
    by (simp add: some_list_includes_iff)
next
  assume "\<not> (\<exists>file \<in> set toFind. file \<in> fst ` set cs)"
  then show "findDirWithFile dir (Dir cs) toFind
             = firstResult (map (\<lambda>(file, c). findDirWithFile (join dir file) c toFind) cs)"
    by (simp add: some_list_includes_iff findInFiles_firstResult)
next
  assume "markerDirs dir t toFind = [d]"
  then show "findDirWithFile dir t toFind = Some d"
    by (simp add: find_is_first_marker(1))
next
  assume "markerDirs dir t toFind = []"
  then show "findDirWithFile dir t toFind = None"
    by (simp add: find_is_first_marker(1))
qed simp_all

theorem findDirWithFile_depth_first_witness:
  "findDirWithFile [''storage'', ''db''] (Dir [(''sub'', example_db), (''.dbinfo'', File)]) markers
     = Some [''storage'', ''db'']
   \<and> findDirWithFile [''storage'', ''db''] (Dir [(''readme'', File), (''wrapper'', example_db)]) markers
     = firstResult [None, Some [''storage'', ''db'', ''wrapper'', ''nested'']]
   \<and> markerDirs [''storage'', ''db''] example_db markers = [[''storage'', ''db'', ''nested'']]
   \<and> findDirWithFile [''storage'', ''db''] example_db markers = Some [''storage'', ''db'', ''nested'']
   \<and> markerDirs [''storage'', ''db''] (Dir [(''readme'', File), (''empty'', Dir [])]) markers = []
   \<and> findDirWithFile [''storage'', ''db''] (Dir [(''readme'', File), (''empty'', Dir [])]) markers = None"
proof -
  have marked: "\<exists>file \<in> set markers. file \<in> fst ` set [(''sub'', example_db), (''.dbinfo'', File)]"
    and unmarked: "\<not> (\<exists>file \<in> set markers.
                        file \<in> fst ` set [(''readme'', File), (''wrapper'', example_db)])"
    by (simp_all add: markers_def)
  have below: "map (\<lambda>(file, c). findDirWithFile (join [''storage'', ''db''] file) c markers)
                 [(''readme'', File), (''wrapper'', example_db)]
               = [None, Some [''storage'', ''db'', ''wrapper'', ''nested'']]"
    by (simp add: markers_def example_db_def join_def some_def list_includes_def)
  have one: "markerDirs [''storage'', ''db''] example_db markers = [[''storage'', ''db'', ''nested'']]"
    and none: "markerDirs [''storage'', ''db''] (Dir [(''readme'', File), (''empty'', Dir [])]) markers
               = []"
    by (simp_all add: markers_def example_db_def join_def)
  note t1 = findDirWithFile_depth_first [of markers "[(''sub'', example_db), (''.dbinfo'', File)]"
      "[''storage'', ''db'']" example_db "[''storage'', ''db'', ''nested'']" File]
  note t2 = findDirWithFile_depth_first [of markers "[(''readme'', File), (''wrapper'', example_db)]"
      "[''storage'', ''db'']" "Dir [(''readme'', File), (''empty'', Dir [])]" "[]" File]
  have a: "findDirWithFile [''storage'', ''db'']
             (Dir [(''sub'', example_db), (''.dbinfo'', File)]) markers = Some [''storage'', ''db'']"
    using t1 marked by blast
  have b: "findDirWithFile [''storage'', ''db'']
             (Dir [(''readme'', File), (''wrapper'', example_db)]) markers
           = firstResult [None, Some [''storage'', ''db'', ''wrapper'', ''nested'']]"
    using t2 unmarked below by metis
  have c: "findDirWithFile [''storage'', ''db''] example_db markers
           = Some [''storage'', ''db'', ''nested'']"
    using t1 one by blast
  have d: "findDirWithFile [''storage'', ''db'']
             (Dir [(''readme'', File), (''empty'', Dir [])]) markers = None"
    using t2 none by blast
  show ?thesis
    by (intro conjI a b one c none d)
qed

subsection \<open>The name of the storage folder\<close>

lemma loop_step:
  "pathExists fs (candidate r l counter) \<Longrightarrow> counter < 100 \<Longrightarrow>
   getStorageFolder_loop fs r l counter (candidate r l counter)
   = getStorageFolder_loop fs r l (Suc counter) (candidate r l (Suc counter))"
  by (subst getStorageFolder_loop.simps) (simp add: candidate_def Let_def)

lemma loop_finds:
  "counter \<le> k \<Longrightarrow> k \<le> 100 \<Longrightarrow> \<not> pathExists fs (candidate r l k) \<Longrightarrow>
   (\<forall>j. counter \<le> j \<and> j < k \<longrightarrow> pathExists fs (candidate r l j)) \<Longrightarrow>
   getStorageFolder_loop fs r l counter (candidate r l counter) = Inr (candidate r l k)"
proof (induction "k - counter" arbitrary: counter)
  case 0
  then have "counter = k" by simp
  with 0 show ?case by (simp add: getStorageFolder_loop.simps)
next
  case (Suc d)
  then have lt: "counter < k" and ex: "pathExists fs (candidate r l counter)" by auto
  have "getStorageFolder_loop fs r l (Suc counter) (candidate r l (Suc counter))
        = Inr (candidate r l k)"
    using Suc.hyps(2) Suc.prems lt by (intro Suc.hyps(1)) auto
  with loop_step [OF ex] lt Suc.prems(2) show ?case by simp
qed

lemma loop_exhausted:
  "counter \<le> 100 \<Longrightarrow> (\<forall>j. counter \<le> j \<and> j \<le> 100 \<longrightarrow> pathExists fs (candidate r l j)) \<Longrightarrow>
   getStorageFolder_loop fs r l counter (candidate r l counter) = Inl name_error"
proof (induction "100 - counter" arbitrary: counter)
  case 0
  then have "counter = 100" by simp
  with 0 show ?case by (subst getStorageFolder_loop.simps) (simp add: name_error_def)
next
  case (Suc d)
  then have lt: "counter < 100" and ex: "pathExists fs (candidate r l counter)" by auto
  have "getStorageFolder_loop fs r l (Suc counter) (candidate r l (Suc counter)) = Inl name_error"
    using Suc.hyps(2) Suc.prems lt by (intro Suc.hyps(1)) auto
  with loop_step [OF ex lt] show ?case by simp
qed

lemma collisions_le: "collisions fs r l \<le> 101"
  using length_takeWhile_le [of "\<lambda>k. pathExists fs (candidate r l k)" "[0..<101]"]
  by (simp add: collisions_def)

lemma collisions_exist:
  assumes "j < collisions fs r l"
  shows "pathExists fs (candidate r l j)"
proof -
  let ?P = "\<lambda>k. pathExists fs (candidate r l k)"
  from assms have j: "j < length (takeWhile ?P [0..<101])" by (simp add: collisions_def)
  then have "takeWhile ?P [0..<101] ! j \<in> set (takeWhile ?P [0..<101])" by simp
  moreover have "takeWhile ?P [0..<101] ! j = j"
    using j collisions_le [of fs r l] by (simp add: takeWhile_nth collisions_def)
  ultimately show ?thesis using set_takeWhileD by fastforce
qed

lemma collisions_free:
  assumes "collisions fs r l \<le> 100"
  shows "\<not> pathExists fs (candidate r l (collisions fs r l))"
  using assms nth_length_takeWhile [of "\<lambda>k. pathExists fs (candidate r l k)" "[0..<101]"]
  by (simp add: collisions_def)

lemma collisions_eqI:
  assumes "k \<le> 100" "\<not> pathExists fs (candidate r l k)" "\<forall>j<k. pathExists fs (candidate r l j)"
  shows "collisions fs r l = k"
proof -
  have "k \<le> collisions fs r l"
    unfolding collisions_def using assms(1,3) by (intro length_takeWhile_less_P_nth) auto
  moreover have "\<not> k < collisions fs r l"
    using collisions_exist assms(2) by blast
  ultimately show ?thesis by simp
qed

lemma collisions_all:
  assumes "\<forall>j\<le>100. pathExists fs (candidate r l j)"
  shows "collisions fs r l = 101"
proof -
  have "101 \<le> collisions fs r l"
    unfolding collisions_def using assms by (intro length_takeWhile_less_P_nth) auto
  with collisions_le [of fs r l] show ?thesis by simp
qed

lemma loop_collisions:
  "getStorageFolder_loop fs r l 0 (candidate r l 0)
   = (if collisions fs r l \<le> 100 then Inr (candidate r l (collisions fs r l)) else Inl name_error)"
proof (cases "collisions fs r l \<le> 100")
  case True
  then show ?thesis
    using loop_finds [of 0 "collisions fs r l" fs r l] collisions_free collisions_exist by simp
next
  case False
  then have "collisions fs r l = 101" using collisions_le [of fs r l] by simp
  then have "\<forall>j. 0 \<le> j \<and> j \<le> 100 \<longrightarrow> pathExists fs (candidate r l j)"
    using collisions_exist [of _ fs r l] by simp
  with False show ?thesis using loop_exhausted [of 0 fs r l] by simp
qed

lemma candidate_0: "candidate r l 0 = join r l"
  by (simp add: candidate_def)

lemma getStorageFolder_collisions:
  "Uri_parse env urlStr False = Some url \<Longrightarrow> pathExists fs storagePath \<Longrightarrow>
   getStorageFolder env fs storagePath urlStr
   = (if collisions fs storagePath (lastName_of (uri_path url)) \<le> 100
      then Inr (candidate storagePath (lastName_of (uri_path url))
                  (collisions fs storagePath (lastName_of (uri_path url))))
      else Inl name_error)"
  using loop_collisions [of fs storagePath "lastName_of (uri_path url)"]
  by (simp add: getStorageFolder_def fs_realpath_def candidate_0 Let_def)

lemma lastName_of_zip:
  "take 250 (basename p) = b @ ''.zip'' \<Longrightarrow> lastName_of p = b"
  by (simp add: lastName_of_def endsWith_def Let_def)

lemma lastName_of_other:
  "\<not> endsWith (take 250 (basename p)) ''.zip'' \<Longrightarrow> lastName_of p = take 250 (basename p)"
  by (simp add: lastName_of_def Let_def)

text \<open>The folders of \<open>storage_with n\<close>.\<close>

lemma map_of_constant: "map_of (map (\<lambda>k. (f k, v)) xs) x = Some y \<Longrightarrow> y = v"
  by (induction xs) (auto split: if_splits)

lemma map_of_generated:
  "j < n \<Longrightarrow> map_of (map (\<lambda>k. (f k, v)) [0..<n]) (f j) = Some v"
  by (induction n) (auto simp: map_add_def less_Suc_eq split: option.splits dest: map_of_constant)

lemma candidate_numbered: "candidate [''storage''] ''db'' k = [''storage'', numbered k]"
  by (simp add: candidate_def numbered_def join_def)

lemma storage_with_exists: "j < n \<Longrightarrow> pathExists (storage_with n) (candidate [''storage''] ''db'' j)"
  by (simp add: candidate_numbered storage_with_def pathExists_def map_of_generated)

lemma storage_with_100_free: "\<not> pathExists (storage_with 100) (candidate [''storage''] ''db'' 100)"
  by code_simp

lemma collisions_storage_100: "collisions (storage_with 100) [''storage''] ''db'' = 100"
  using storage_with_100_free by (intro collisions_eqI) (simp_all add: storage_with_exists)

lemma collisions_storage_101: "collisions (storage_with 101) [''storage''] ''db'' = 101"
  by (intro collisions_all) (simp add: storage_with_exists)

lemma example_parse_https:
  "Uri_parse example_env ''https://example.com/db.zip'' False
   = Some \<lparr>uri_scheme = ''https'', uri_path = ''/db.zip'', uri_fsPath = [''db.zip'']\<rparr>"
  by (simp add: example_env_def example_parse_def)

lemma lastName_db: "lastName_of ''/db.zip'' = ''db''"
  by (simp add: lastName_of_def basename_def endsWith_def)

text \<open>
  Claim C2, as amended. The folder name is the base name of the path of the archive's
  URL, cut to 250 characters and then without a \<^verbatim>\<open>.zip\<close> at its end. The folder
  returned is the first in the order tried that does not exist: the plain name, then the
  name with the least counter from 1 to 100. The operation fails when the plain name and
  the names with all the counters from 1 to 100 exist, that is after 101 collisions; after
  100 collisions it returns the name with the counter 100.
\<close>

theorem getStorageFolder_least_counter:
  "Uri_parse env urlStr False = Some url \<and> pathExists fs storagePath \<longrightarrow>
     (take 250 (basename (uri_path url)) = b @ ''.zip'' \<longrightarrow> lastName_of (uri_path url) = b)
   \<and> (\<not> endsWith (take 250 (basename (uri_path url))) ''.zip'' \<longrightarrow>
        lastName_of (uri_path url) = take 250 (basename (uri_path url)))
   \<and> (k \<le> 100 \<and> \<not> pathExists fs (candidate storagePath (lastName_of (uri_path url)) k)
        \<and> (\<forall>j<k. pathExists fs (candidate storagePath (lastName_of (uri_path url)) j)) \<longrightarrow>
        getStorageFolder env fs storagePath urlStr
        = Inr (candidate storagePath (lastName_of (uri_path url)) k))
   \<and> ((\<forall>j\<le>100. pathExists fs (candidate storagePath (lastName_of (uri_path url)) j)) \<longrightarrow>
        getStorageFolder env fs storagePath urlStr = Inl name_error)
   \<and> getStorageFolder env fs storagePath urlStr
     = (if collisions fs storagePath (lastName_of (uri_path url)) \<le> 100
        then Inr (candidate storagePath (lastName_of (uri_path url))
                    (collisions fs storagePath (lastName_of (uri_path url))))
        else Inl name_error)"
proof (intro impI conjI)
  assume "take 250 (basename (uri_path url)) = b @ ''.zip''"
  then show "lastName_of (uri_path url) = b" by (rule lastName_of_zip)
next
  assume "\<not> endsWith (take 250 (basename (uri_path url))) ''.zip''"
  then show "lastName_of (uri_path url) = take 250 (basename (uri_path url))"
    by (rule lastName_of_other)
next
  let ?l = "lastName_of (uri_path url)"
  assume a: "Uri_parse env urlStr False = Some url \<and> pathExists fs storagePath"
    and k: "k \<le> 100 \<and> \<not> pathExists fs (candidate storagePath ?l k)
            \<and> (\<forall>j<k. pathExists fs (candidate storagePath ?l j))"
  from k have "collisions fs storagePath ?l = k" by (intro collisions_eqI) auto
  with a k show "getStorageFolder env fs storagePath urlStr = Inr (candidate storagePath ?l k)"
    by (simp add: getStorageFolder_collisions)
next
  let ?l = "lastName_of (uri_path url)"
  assume a: "Uri_parse env urlStr False = Some url \<and> pathExists fs storagePath"
    and all: "\<forall>j\<le>100. pathExists fs (candidate storagePath ?l j)"
  from all have "collisions fs storagePath ?l = 101" by (rule collisions_all)
  with a show "getStorageFolder env fs storagePath urlStr = Inl name_error"
    by (simp add: getStorageFolder_collisions)
next
  assume "Uri_parse env urlStr False = Some url \<and> pathExists fs storagePath"
  then show "getStorageFolder env fs storagePath urlStr
     = (if collisions fs storagePath (lastName_of (uri_path url)) \<le> 100
        then Inr (candidate storagePath (lastName_of (uri_path url))
                    (collisions fs storagePath (lastName_of (uri_path url))))
        else Inl name_error)"
    by (simp add: getStorageFolder_collisions)
qed

theorem getStorageFolder_least_counter_witness:
  "Uri_parse example_env ''https://example.com/db.zip'' False
     = Some \<lparr>uri_scheme = ''https'', uri_path = ''/db.zip'', uri_fsPath = [''db.zip'']\<rparr>
   \<and> take 250 (basename ''/db.zip'') = ''db'' @ ''.zip''
   \<and> lastName_of ''/db.zip'' = ''db''
   \<and> pathExists storage3 [''storage'']
   \<and> pathExists storage3 [''storage'', ''db'']
   \<and> pathExists storage3 [''storage'', ''db-1'']
   \<and> pathExists storage3 [''storage'', ''db-2'']
   \<and> \<not> pathExists storage3 [''storage'', ''db-3'']
   \<and> getStorageFolder example_env storage3 [''storage''] ''https://example.com/db.zip''
       = Inr [''storage'', ''db-3'']
   \<and> collisions (storage_with 101) [''storage''] ''db'' = 101
   \<and> getStorageFolder example_env (storage_with 101) [''storage''] ''https://example.com/db.zip''
       = Inl name_error"
proof -
  let ?url = "\<lparr>uri_scheme = ''https'', uri_path = ''/db.zip'', uri_fsPath = [''db.zip'']\<rparr>"
  note p = example_parse_https
  have b: "take 250 (basename ''/db.zip'') = ''db'' @ ''.zip''"
    by (simp add: basename_def)
  have r3: "pathExists storage3 [''storage'']"
    and r101: "pathExists (storage_with 101) [''storage'']"
    by (simp_all add: storage3_def storage_with_def pathExists_def)
  have l: "lastName_of ''/db.zip'' = ''db''"
    using getStorageFolder_least_counter [of example_env "''https://example.com/db.zip''" ?url
        storage3 "[''storage'']" "''db''" 3] p b r3 by simp
  have c: "candidate [''storage''] ''db'' 0 = [''storage'', ''db'']"
          "candidate [''storage''] ''db'' 1 = [''storage'', ''db-1'']"
          "candidate [''storage''] ''db'' 2 = [''storage'', ''db-2'']"
          "candidate [''storage''] ''db'' 3 = [''storage'', ''db-3'']"
    by (simp_all add: candidate_def join_def string_of_nat.simps digit_def)
  have e: "pathExists storage3 [''storage'', ''db'']" "pathExists storage3 [''storage'', ''db-1'']"
          "pathExists storage3 [''storage'', ''db-2'']" "\<not> pathExists storage3 [''storage'', ''db-3'']"
    by (simp_all add: storage3_def pathExists_def)
  have below: "\<forall>j<3. pathExists storage3 (candidate [''storage''] ''db'' j)"
  proof (intro allI impI)
    fix j :: nat
    assume "j < 3"
    then consider "j = 0" | "j = 1" | "j = 2" by linarith
    then show "pathExists storage3 (candidate [''storage''] ''db'' j)"
      using c e by cases simp_all
  qed
  have g3: "getStorageFolder example_env storage3 [''storage''] ''https://example.com/db.zip''
            = Inr [''storage'', ''db-3'']"
    using getStorageFolder_least_counter [of example_env "''https://example.com/db.zip''" ?url
        storage3 "[''storage'']" "''db''" 3] p r3 below e(4) l c(4)
    by simp
  have all: "\<forall>j\<le>100. pathExists (storage_with 101) (candidate [''storage''] ''db'' j)"
    by (simp add: storage_with_exists)
  have g101: "getStorageFolder example_env (storage_with 101) [''storage'']
                ''https://example.com/db.zip'' = Inl name_error"
    using getStorageFolder_least_counter [of example_env "''https://example.com/db.zip''" ?url
        "storage_with 101" "[''storage'']" "''db''" 3] p r101 l all
    by simp
  show ?thesis using p b l r3 e g3 collisions_storage_101 g101 by simp
qed

text \<open>
  The claim as stated fails after exactly 100 collisions: with \<^verbatim>\<open>db\<close>, \<^verbatim>\<open>db-1\<close>, ...,
  \<^verbatim>\<open>db-99\<close> present the operation does not fail but returns \<^verbatim>\<open>db-100\<close>.
\<close>

theorem hundred_collisions_counterexample:
  "collisions (storage_with 100) [''storage''] ''db'' = 100
   \<and> getStorageFolder example_env (storage_with 100) [''storage''] ''https://example.com/db.zip''
     = Inr [''storage'', ''db-100'']"
proof -
  have "pathExists (storage_with 100) [''storage'']"
    by (simp add: storage_with_def pathExists_def)
  moreover have "candidate [''storage''] ''db'' 100 = [''storage'', ''db-100'']"
    by (simp add: candidate_def join_def string_of_nat.simps digit_def)
  ultimately show ?thesis
    using getStorageFolder_collisions [OF example_parse_https, of "storage_with 100" "[''storage'']"]
      collisions_storage_100 lastName_db
    by simp
qed

subsection \<open>The source archive\<close>

lemma srcFolderPath_nonempty: "join databasePath ''src'' \<noteq> []"
  by (simp add: join_def)

text \<open>
  A call that returns has either changed nothing, and then not because \<^verbatim>\<open>src\<close> was
  there without \<^verbatim>\<open>src.zip\<close>, or it has found \<^verbatim>\<open>src\<close> without \<^verbatim>\<open>src.zip\<close> and has
  removed \<^verbatim>\<open>src\<close>.
\<close>

lemma normalizer_cases:
  "ensureZippedSourceLocation env db w = (Inr u, w') \<Longrightarrow>
   (w' = w \<and> \<not> (pathExists (files w) (srcFolderPath_of db)
                 \<and> \<not> pathExists (files w) (srcZipPath_of db)))
   \<or> (pathExists (files w) (srcFolderPath_of db) \<and> \<not> pathExists (files w) (srcZipPath_of db)
        \<and> \<not> pathExists (files w') (srcFolderPath_of db))"
  by (auto simp: ensureZippedSourceLocation_def srcFolderPath_of_def srcZipPath_of_def Let_def
        zip_folder_def remove_def pathExists_def lookup_rm_same srcFolderPath_nonempty
      split: if_splits option.splits sum.splits prod.splits)

lemma normalizer_zips:
  assumes "ensureZippedSourceLocation env db w = (Inr u, w')"
    and "pathExists (files w) (srcFolderPath_of db)"
    and "\<not> pathExists (files w) (srcZipPath_of db)"
  shows "\<not> pathExists (files w') (srcFolderPath_of db) \<and> pathExists (files w') (srcZipPath_of db)"
proof -
  have src: "srcFolderPath_of db = db @ [''src'']" and zip: "srcZipPath_of db = db @ [''src.zip'']"
    by (simp_all add: srcFolderPath_of_def srcZipPath_of_def join_def path_concat_def)
  from assms obtain t fs where
    "put (files w) (db @ [''src.zip'']) (Zip t) = Some fs"
    and w': "files w' = rm fs (db @ [''src''])"
    unfolding src zip
    by (auto simp: ensureZippedSourceLocation_def zip_folder_def remove_def Let_def
          srcFolderPath_of_def srcZipPath_of_def join_def path_concat_def
        split: option.splits sum.splits prod.splits if_splits)
  then have "lookup fs (db @ [''src.zip'']) = Some (Zip t)" by (simp add: lookup_put_same)
  then have "lookup (files w') (db @ [''src.zip'']) = Some (Zip t)"
    by (simp add: w' lookup_rm_sibling)
  moreover have "lookup (files w') (db @ [''src'']) = None"
    by (simp add: w' lookup_rm_same)
  ultimately show ?thesis by (simp add: pathExists_def src zip)
qed

text \<open>
  Claim C3. Two calls of \<^verbatim>\<open>ensureZippedSourceLocation\<close> in a row do what one call does:
  after a call that returns, a second call returns and leaves the file system as it is.
  When \<^verbatim>\<open>src.zip\<close> exists the call changes nothing, so the archive is not written
  again and a loose \<^verbatim>\<open>src\<close> stays; when \<^verbatim>\<open>src\<close> does not exist the call changes
  nothing either.
\<close>

theorem ensureZippedSourceLocation_idempotent:
  "(case ensureZippedSourceLocation env databasePath w of
      (Inl e, w1) \<Rightarrow> (Inl e, w1)
    | (Inr u, w1) \<Rightarrow> ensureZippedSourceLocation env databasePath w1)
   = ensureZippedSourceLocation env databasePath w
   \<and> (ensureZippedSourceLocation env databasePath w = (Inr (), w') \<longrightarrow>
        ensureZippedSourceLocation env databasePath w' = (Inr (), w'))
   \<and> (pathExists (files w) (srcZipPath_of databasePath) \<longrightarrow>
        ensureZippedSourceLocation env databasePath w = (Inr (), w))
   \<and> (\<not> pathExists (files w) (srcFolderPath_of databasePath) \<longrightarrow>
        ensureZippedSourceLocation env databasePath w = (Inr (), w))"
proof -
  have again: "ensureZippedSourceLocation env databasePath w2 = (Inr (), w2)"
    if "ensureZippedSourceLocation env databasePath w = (Inr u, w2)" for u w2
    using normalizer_cases [OF that]
    by (auto simp: ensureZippedSourceLocation_def srcFolderPath_of_def srcZipPath_of_def Let_def)
  have twice: "(case ensureZippedSourceLocation env databasePath w of
      (Inl e, w1) \<Rightarrow> (Inl e, w1)
    | (Inr u, w1) \<Rightarrow> ensureZippedSourceLocation env databasePath w1)
   = ensureZippedSourceLocation env databasePath w"
  proof (cases "ensureZippedSourceLocation env databasePath w")
    case (Pair r w1)
    then show ?thesis using again by (cases r) auto
  qed
  show ?thesis
    using twice again
    by (auto simp: ensureZippedSourceLocation_def srcFolderPath_of_def srcZipPath_of_def Let_def)
qed

lemmas normalizer_eval = ensureZippedSourceLocation_def srcFolderPath_of_def srcZipPath_of_def
  zip_folder_def remove_def pathExists_def join_def path_concat_def

theorem ensureZippedSourceLocation_idempotent_witness:
  "ensureZippedSourceLocation example_env [''storage'', ''db'', ''nested''] unpacked_world
     = (Inr (), zipped_world)
   \<and> ensureZippedSourceLocation example_env [''storage'', ''db'', ''nested''] zipped_world
     = (Inr (), zipped_world)
   \<and> pathExists (files zipped_world) (srcZipPath_of [''storage'', ''db'', ''nested''])
   \<and> \<not> pathExists (files zipped_world) (srcFolderPath_of [''storage'', ''db'', ''nested''])"
proof -
  have first: "ensureZippedSourceLocation example_env [''storage'', ''db'', ''nested''] unpacked_world
     = (Inr (), zipped_world)"
    by (simp add: normalizer_eval unpacked_world_def zipped_world_def example_db_def example_env_def)
  have z: "pathExists (files zipped_world) (srcZipPath_of [''storage'', ''db'', ''nested''])"
    and s: "\<not> pathExists (files zipped_world) (srcFolderPath_of [''storage'', ''db'', ''nested''])"
    by (simp_all add: normalizer_eval zipped_world_def)
  show ?thesis
    using first z s
      ensureZippedSourceLocation_idempotent [of example_env "[''storage'', ''db'', ''nested'']"
        unpacked_world zipped_world]
      ensureZippedSourceLocation_idempotent [of example_env "[''storage'', ''db'', ''nested'']"
        zipped_world zipped_world]
    by simp
qed


subsection \<open>The layout after an import\<close>

lemma locateAndRegister_layout:
  assumes "locateAndRegister env unzipPath nameOverride origin makeSelected addSourceArchiveFolder w1
           = (Inr item, w')"
  shows "(pathExists (files w') (srcFolderPath_of (databaseUri item)) \<longrightarrow>
            pathExists (files w') (srcZipPath_of (databaseUri item)) \<and> files w' = files w1)
         \<and> (pathExists (files w1) (srcFolderPath_of (databaseUri item))
              \<and> \<not> pathExists (files w1) (srcZipPath_of (databaseUri item)) \<longrightarrow>
            \<not> pathExists (files w') (srcFolderPath_of (databaseUri item))
              \<and> pathExists (files w') (srcZipPath_of (databaseUri item)))"
proof -
  let ?w1 = "emit (Progress \<lparr>message = ''Opening database'', step = 3, maxStep = 4\<rparr>) w1"
  let ?w2 = "emit (Progress \<lparr>message = ''Validating and fixing source location'',
                              step = 4, maxStep = 4\<rparr>) ?w1"
  from assms(1) obtain t dbPath w3 u where
    n: "ensureZippedSourceLocation env dbPath ?w2 = (Inr u, w3)"
    and o: "openDatabase env dbPath origin makeSelected nameOverride addSourceArchiveFolder w3
            = (Inr item, w')"
    by (auto simp: locateAndRegister_def Let_def split: option.splits prod.splits sum.splits)
  from o have i: "databaseUri item = dbPath" and f: "files w' = files w3"
    by (auto simp: openDatabase_def Let_def files_emit split: option.splits)
  have f2: "files ?w2 = files w1" by (simp add: files_emit)
  show ?thesis
    using normalizer_cases [OF n] normalizer_zips [OF n] i f f2 by auto
qed

text \<open>
  Claim C4, as amended. After a successful import a loose \<^verbatim>\<open>src\<close> in the database
  directory is never without a \<^verbatim>\<open>src.zip\<close> beside it, and when a loose \<^verbatim>\<open>src\<close> is
  there the file system is as the unpacking left it: both came out of the archive. When
  the unpacking has left \<^verbatim>\<open>src\<close> without \<^verbatim>\<open>src.zip\<close>, the import ends with
  \<^verbatim>\<open>src.zip\<close> and without \<^verbatim>\<open>src\<close>.
\<close>

theorem import_source_layout:
  "databaseArchiveFetcher env databaseUrl requestHeaders storagePath nameOverride origin
     makeSelected addSourceArchiveFolder w = (Inr item, w') \<longrightarrow>
   (\<exists>unzipPath w1.
      acquireAndUnpack env databaseUrl requestHeaders storagePath w = (Inr unzipPath, w1)
      \<and> (pathExists (files w') (srcFolderPath_of (databaseUri item)) \<longrightarrow>
           pathExists (files w') (srcZipPath_of (databaseUri item)) \<and> files w' = files w1)
      \<and> (pathExists (files w1) (srcFolderPath_of (databaseUri item))
           \<and> \<not> pathExists (files w1) (srcZipPath_of (databaseUri item)) \<longrightarrow>
           \<not> pathExists (files w') (srcFolderPath_of (databaseUri item))
           \<and> pathExists (files w') (srcZipPath_of (databaseUri item))))"
proof
  assume run: "databaseArchiveFetcher env databaseUrl requestHeaders storagePath nameOverride origin
     makeSelected addSourceArchiveFolder w = (Inr item, w')"
  then obtain unzipPath w1 where
    a: "acquireAndUnpack env databaseUrl requestHeaders storagePath w = (Inr unzipPath, w1)"
    and l: "locateAndRegister env unzipPath nameOverride origin makeSelected addSourceArchiveFolder w1
            = (Inr item, w')"
    by (auto simp: databaseArchiveFetcher_def split: prod.splits sum.splits)
  show "\<exists>unzipPath w1.
      acquireAndUnpack env databaseUrl requestHeaders storagePath w = (Inr unzipPath, w1)
      \<and> (pathExists (files w') (srcFolderPath_of (databaseUri item)) \<longrightarrow>
           pathExists (files w') (srcZipPath_of (databaseUri item)) \<and> files w' = files w1)
      \<and> (pathExists (files w1) (srcFolderPath_of (databaseUri item))
           \<and> \<not> pathExists (files w1) (srcZipPath_of (databaseUri item)) \<longrightarrow>
           \<not> pathExists (files w') (srcFolderPath_of (databaseUri item))
           \<and> pathExists (files w') (srcZipPath_of (databaseUri item)))"
    using a locateAndRegister_layout [OF l] by blast
qed

theorem import_source_layout_witness:
  "import_local (Zip example_db_both) = (Inr nested_item, snd (import_local (Zip example_db_both)))
   \<and> pathExists (files (snd (import_local (Zip example_db_both))))
         (srcFolderPath_of (databaseUri nested_item))
   \<and> pathExists (files (snd (import_local (Zip example_db_both))))
         (srcZipPath_of (databaseUri nested_item))
   \<and> files (snd (import_local (Zip example_db_both)))
       = files (snd (unpack_local (Zip example_db_both)))
   \<and> import_local (Zip example_db) = (Inr nested_item, snd (import_local (Zip example_db)))
   \<and> pathExists (files (snd (unpack_local (Zip example_db))))
         (srcFolderPath_of (databaseUri nested_item))
   \<and> \<not> pathExists (files (snd (unpack_local (Zip example_db))))
           (srcZipPath_of (databaseUri nested_item))
   \<and> \<not> pathExists (files (snd (import_local (Zip example_db))))
           (srcFolderPath_of (databaseUri nested_item))
   \<and> pathExists (files (snd (import_local (Zip example_db))))
         (srcZipPath_of (databaseUri nested_item))"
proof -
  have both: "fst (import_local (Zip example_db_both)) = Inr nested_item"
    and src: "pathExists (files (snd (import_local (Zip example_db_both))))
                (srcFolderPath_of (databaseUri nested_item))"
    by (simp_all add: import_local_def example_defs pipeline_defs archive_origin_def
          nested_item_def Let_def)
  have one: "fst (import_local (Zip example_db)) = Inr nested_item"
    and loose: "pathExists (files (snd (unpack_local (Zip example_db))))
                  (srcFolderPath_of (databaseUri nested_item))"
    and nozip: "\<not> pathExists (files (snd (unpack_local (Zip example_db))))
                    (srcZipPath_of (databaseUri nested_item))"
    by (simp_all add: import_local_def unpack_local_def example_defs pipeline_defs
          archive_origin_def nested_item_def Let_def)
  have run: "import_local (Zip example_db_both)
             = (Inr nested_item, snd (import_local (Zip example_db_both)))"
    using both by (simp add: prod_eq_iff)
  have run1: "import_local (Zip example_db) = (Inr nested_item, snd (import_local (Zip example_db)))"
    using one by (simp add: prod_eq_iff)
  from import_source_layout [of example_env "''file:///tmp/db.zip''" "[]" "Some [''storage'']" None
      archive_origin True True "example_world (Zip example_db_both)" nested_item
      "snd (import_local (Zip example_db_both))"] run src
  have beside: "pathExists (files (snd (import_local (Zip example_db_both))))
                  (srcZipPath_of (databaseUri nested_item))"
    and same: "files (snd (import_local (Zip example_db_both)))
               = files (snd (unpack_local (Zip example_db_both)))"
    by (auto simp: import_local_def unpack_local_def)
  from import_source_layout [of example_env "''file:///tmp/db.zip''" "[]" "Some [''storage'']" None
      archive_origin True True "example_world (Zip example_db)" nested_item
      "snd (import_local (Zip example_db))"] run1 loose nozip
  have gone: "\<not> pathExists (files (snd (import_local (Zip example_db))))
                  (srcFolderPath_of (databaseUri nested_item))"
    and zipped: "pathExists (files (snd (import_local (Zip example_db))))
                  (srcZipPath_of (databaseUri nested_item))"
    by (auto simp: import_local_def unpack_local_def)
  show ?thesis
    by (intro conjI run src beside same run1 loose nozip gone zipped)
qed

text \<open>
  The claim as stated fails for an archive that holds both: the import succeeds and the
  database directory holds the loose \<^verbatim>\<open>src\<close> and \<^verbatim>\<open>src.zip\<close>.
\<close>

theorem both_sources_counterexample:
  "fst (import_local (Zip example_db_both)) = Inr nested_item
   \<and> lookup (files (snd (import_local (Zip example_db_both))))
        [''storage'', ''db'', ''nested'', ''src''] = Some (Dir [(''Main.java'', File)])
   \<and> lookup (files (snd (import_local (Zip example_db_both))))
        [''storage'', ''db'', ''nested'', ''src.zip''] = Some (Zip (Dir []))"
  by (simp add: import_local_def example_defs pipeline_defs archive_origin_def nested_item_def
        Let_def)

subsection \<open>The check of the URL\<close>

text \<open>
  Claim C5, as amended. \<^verbatim>\<open>validateUrl\<close> fails with "Invalid url" on a string that does
  not parse, fails with "Must use https" on a scheme other than https unless the
  configuration allows http, and accepts an https URL whatever the configuration. The
  import of a URL that the user enters runs this check first: when it fails, the
  operation ends with its error after the input box and nothing else has happened, no
  download in particular. (The URL of a GitHub database goes to the fetcher without the
  check.)
\<close>

theorem validateUrl_gate:
  "(Uri_parse env u True = None \<longrightarrow> validateUrl env u = Inl (Error (''Invalid url: '' @ u)))
   \<and> (Uri_parse env u True = Some uri \<and> \<not> allowHttp env \<and> uri_scheme uri \<noteq> ''https'' \<longrightarrow>
        validateUrl env u = Inl must_use_https)
   \<and> (Uri_parse env u True = Some uri \<and> (allowHttp env \<or> uri_scheme uri = ''https'') \<longrightarrow>
        validateUrl env u = Inr ())
   \<and> (showInputBox env url_prompt = Some u \<and> u \<noteq> [] \<and> validateUrl env u = Inl e \<longrightarrow>
        promptImportInternetDatabase env storagePath w = (Inl e, emit (InputBox url_prompt) w))"
  by (auto simp: validateUrl_def promptImportInternetDatabase_def url_prompt_def truthy_def
        must_use_https_def Let_def)

theorem validateUrl_gate_witness:
  "validateUrl example_env ''example.com/db.zip'' = Inl (Error ''Invalid url: example.com/db.zip'')
   \<and> validateUrl example_env http_url = Inl must_use_https
   \<and> validateUrl (example_env\<lparr>allowHttp := True\<rparr>) http_url = Inr ()
   \<and> validateUrl example_env ''https://example.com/db.zip'' = Inr ()
   \<and> promptImportInternetDatabase (example_env\<lparr>showInputBox := (\<lambda>p. Some http_url)\<rparr>)
        (Some [''storage'']) (example_world File)
      = (Inl must_use_https, emit (InputBox url_prompt) (example_world File))"
proof -
  let ?http = "\<lparr>uri_scheme = ''http'', uri_path = ''/db.zip'', uri_fsPath = [''db.zip'']\<rparr>"
  let ?https = "\<lparr>uri_scheme = ''https'', uri_path = ''/db.zip'', uri_fsPath = [''db.zip'']\<rparr>"
  let ?ask = "example_env\<lparr>showInputBox := (\<lambda>p. Some http_url)\<rparr>"
  have p0: "Uri_parse example_env ''example.com/db.zip'' True = None"
    and p1: "Uri_parse example_env http_url True = Some ?http"
    and p2: "Uri_parse example_env ''https://example.com/db.zip'' True = Some ?https"
    and h: "\<not> allowHttp example_env"
    by (simp_all add: example_env_def example_parse_def http_url_def)
  have a: "validateUrl example_env ''example.com/db.zip'' = Inl (Error ''Invalid url: example.com/db.zip'')"
    using validateUrl_gate [of example_env "''example.com/db.zip''"] p0 by simp
  have b: "validateUrl example_env http_url = Inl must_use_https"
    using validateUrl_gate [of example_env http_url ?http] p1 h by simp
  have c: "validateUrl (example_env\<lparr>allowHttp := True\<rparr>) http_url = Inr ()"
    using validateUrl_gate [of "example_env\<lparr>allowHttp := True\<rparr>" http_url ?http] p1
    by (simp add: example_env_def)
  have d: "validateUrl example_env ''https://example.com/db.zip'' = Inr ()"
    using validateUrl_gate [of example_env "''https://example.com/db.zip''" ?https] p2 by simp
  have b': "validateUrl ?ask http_url = Inl must_use_https"
    by (simp add: validateUrl_def example_env_def example_parse_def http_url_def
          must_use_https_def)
  have e: "promptImportInternetDatabase ?ask (Some [''storage'']) (example_world File)
      = (Inl must_use_https, emit (InputBox url_prompt) (example_world File))"
    using validateUrl_gate [of ?ask http_url ?http must_use_https "Some [''storage'']"
        "example_world File"] b'
    by (simp add: example_env_def http_url_def)
  show ?thesis by (intro conjI a b c d e)
qed

text \<open>
  The claim as stated fails for the URL that the GitHub client supplies: \<^verbatim>\<open>validateUrl\<close>
  rejects the http URL, yet \<^verbatim>\<open>downloadGitHubDatabaseFromUrl\<close> fetches it and the import
  succeeds.
\<close>

theorem github_url_unchecked_counterexample:
  "validateUrl example_env http_url = Inl must_use_https
   \<and> fst github_run = Inr (Some github_item)
   \<and> Fetch http_url github_headers \<in> set (trace (snd github_run))"
  by (simp add: github_run_def github_item_def downloadGitHubDatabaseFromUrl_def validateUrl_def
        must_use_https_def http_url_def github_headers_def truthy_def template_def example_defs
        pipeline_defs Let_def)

subsection \<open>An invalid repository\<close>

text \<open>
  Claim C10. On a string that \<^verbatim>\<open>getNwoFromGitHubUrl\<close> does not read as a GitHub URL and
  that is no valid name with owner, \<^verbatim>\<open>downloadGitHubDatabase\<close> fails with the error that
  names the string, and the world is as before the call: no request was sent, nothing was
  asked, no file was touched.
\<close>

theorem invalid_repository_rejected_first:
  "getNwoFromGitHubUrl env githubRepo = None \<and> \<not> isValidGitHubNwo env githubRepo \<longrightarrow>
   downloadGitHubDatabase env githubRepo storagePath language makeSelected addSourceArchiveFolder w
   = (Inl (Error (''Invalid GitHub repository: '' @ githubRepo)), w)"
  by (simp add: downloadGitHubDatabase_def)

theorem invalid_repository_rejected_first_witness:
  "getNwoFromGitHubUrl example_env ''not a repository'' = None
   \<and> \<not> isValidGitHubNwo example_env ''not a repository''
   \<and> downloadGitHubDatabase example_env ''not a repository'' (Some [''storage'']) None True True
        (example_world File)
     = (Inl (Error ''Invalid GitHub repository: not a repository''), example_world File)"
  using invalid_repository_rejected_first [of example_env "''not a repository''"
      "Some [''storage'']" None True True "example_world File"]
  by (simp add: example_env_def)

subsection \<open>The choice of the language\<close>

lemma find_language:
  "l \<in> set (map db_language data) \<Longrightarrow> \<exists>db. find (\<lambda>db. db_language db = l) data = Some db"
  by (induction data) auto

lemma try_direct:
  assumes "listCodeqlDatabases octokit (nwo_owner nwo) (nwo_repo nwo) = Inr data"
    and "l \<noteq> []" and "find (\<lambda>db. db_language db = l) data = Some db"
  shows "convertGithubNwoToDatabaseUrl_try env nwo octokit (Some l) w
         = (Inr (Some (resolved nwo db)), emit (listing nwo) w)"
proof -
  from assms(3) have "l \<in> set (map db_language data)"
    by (auto simp: find_Some_iff)
  then have "\<not> needs_prompt (Some l) (map db_language data)"
    using assms(2) by (simp add: needs_prompt_def list_includes_iff)
  with assms show ?thesis
    by (simp add: convertGithubNwoToDatabaseUrl_try_def Let_def truthy_def resolved_def listing_def)
qed

lemma try_single:
  assumes "listCodeqlDatabases octokit (nwo_owner nwo) (nwo_repo nwo) = Inr [db]"
    and "needs_prompt language [db_language db]" and "db_language db \<noteq> []"
  shows "convertGithubNwoToDatabaseUrl_try env nwo octokit language w
         = (Inr (Some (resolved nwo db)), emit choose_language (emit (listing nwo) w))"
  using assms
  by (simp add: convertGithubNwoToDatabaseUrl_try_def promptForLanguage_def Let_def truthy_def
        resolved_def listing_def choose_language_def)

lemma try_picker:
  assumes "listCodeqlDatabases octokit (nwo_owner nwo) (nwo_repo nwo) = Inr data"
    and "needs_prompt language (map db_language data)" and "2 \<le> length data"
  shows "convertGithubNwoToDatabaseUrl_try env nwo octokit language w
         = (case showQuickPick env (language_items env (map db_language data)) of
              None \<Rightarrow>
                (Inr None, emit (QuickPick (language_items env (map db_language data)))
                             (emit choose_language (emit (listing nwo) w)))
            | Some item \<Rightarrow>
                (if item_language item = [] then Inr None
                 else (case find (\<lambda>db. db_language db = item_language item) data of
                         None \<Rightarrow> Inl (Error (''No database found for language ''
                                               @ quoted (item_language item)))
                       | Some db \<Rightarrow> Inr (Some (resolved nwo db))),
                 emit (QuickPick (language_items env (map db_language data)))
                   (emit choose_language (emit (listing nwo) w))))"
  using assms
  by (auto simp: convertGithubNwoToDatabaseUrl_try_def promptForLanguage_def Let_def truthy_def
        resolved_def listing_def choose_language_def split: option.splits)

lemma convert_ok:
  "convertGithubNwoToDatabaseUrl_try env nwo octokit language w = (Inr r, w') \<Longrightarrow>
   convertGithubNwoToDatabaseUrl env nwo octokit language w = (Inr r, w')"
  by (simp add: convertGithubNwoToDatabaseUrl_def)

lemma convert_error:
  "convertGithubNwoToDatabaseUrl_try env nwo octokit language w = (Inl e, w') \<Longrightarrow>
   convertGithubNwoToDatabaseUrl env nwo octokit language w
   = (Inl (Error (''Unable to get database for '' @ quoted nwo)),
      emit (Log (''Error: '' @ getErrorMessage e)) w')"
  by (simp add: convertGithubNwoToDatabaseUrl_def)

text \<open>
  Claim C6. In the resolver, with the list of databases at hand and language names that
  are not empty: a language argument that is among the listed languages is selected
  without any prompt (nothing but the listing request happens); without such an argument
  and with one database listed, its language is selected without the picker; with two or
  more listed the picker is shown, and when the user declines, the resolution returns
  "not chosen" and raises no error.
\<close>

theorem language_selection:
  "listCodeqlDatabases octokit (nwo_owner nwo) (nwo_repo nwo) = Inr data \<longrightarrow>
     (l \<noteq> [] \<and> l \<in> set (map db_language data) \<longrightarrow>
        (\<exists>db. find (\<lambda>db. db_language db = l) data = Some db
           \<and> convertGithubNwoToDatabaseUrl env nwo octokit (Some l) w
             = (Inr (Some (resolved nwo db)), emit (listing nwo) w)))
   \<and> (needs_prompt language (map db_language data) \<and> data = [db] \<and> db_language db \<noteq> [] \<longrightarrow>
        convertGithubNwoToDatabaseUrl env nwo octokit language w
        = (Inr (Some (resolved nwo db)), emit choose_language (emit (listing nwo) w)))
   \<and> (needs_prompt language (map db_language data) \<and> 2 \<le> length data \<longrightarrow>
        QuickPick (language_items env (map db_language data))
          \<in> set (trace (snd (convertGithubNwoToDatabaseUrl env nwo octokit language w))))
   \<and> (needs_prompt language (map db_language data) \<and> 2 \<le> length data
        \<and> showQuickPick env (language_items env (map db_language data)) = None \<longrightarrow>
        convertGithubNwoToDatabaseUrl env nwo octokit language w
        = (Inr None, emit (QuickPick (language_items env (map db_language data)))
                       (emit choose_language (emit (listing nwo) w))))"
proof (intro impI conjI)
  assume list: "listCodeqlDatabases octokit (nwo_owner nwo) (nwo_repo nwo) = Inr data"
    and l: "l \<noteq> [] \<and> l \<in> set (map db_language data)"
  then obtain db where "find (\<lambda>db. db_language db = l) data = Some db"
    using find_language by blast
  then show "\<exists>db. find (\<lambda>db. db_language db = l) data = Some db
           \<and> convertGithubNwoToDatabaseUrl env nwo octokit (Some l) w
             = (Inr (Some (resolved nwo db)), emit (listing nwo) w)"
    using try_direct [OF list] l convert_ok by blast
next
  assume list: "listCodeqlDatabases octokit (nwo_owner nwo) (nwo_repo nwo) = Inr data"
    and one: "needs_prompt language (map db_language data) \<and> data = [db] \<and> db_language db \<noteq> []"
  then have "convertGithubNwoToDatabaseUrl_try env nwo octokit language w
        = (Inr (Some (resolved nwo db)), emit choose_language (emit (listing nwo) w))"
    by (intro try_single) auto
  then show "convertGithubNwoToDatabaseUrl env nwo octokit language w
        = (Inr (Some (resolved nwo db)), emit choose_language (emit (listing nwo) w))"
    by (rule convert_ok)
next
  assume list: "listCodeqlDatabases octokit (nwo_owner nwo) (nwo_repo nwo) = Inr data"
    and many: "needs_prompt language (map db_language data) \<and> 2 \<le> length data"
  then show "QuickPick (language_items env (map db_language data))
          \<in> set (trace (snd (convertGithubNwoToDatabaseUrl env nwo octokit language w)))"
    by (simp add: convertGithubNwoToDatabaseUrl_def emit_def
          try_picker [of octokit nwo data language env w]
          split: option.splits sum.splits)
next
  assume list: "listCodeqlDatabases octokit (nwo_owner nwo) (nwo_repo nwo) = Inr data"
    and none: "needs_prompt language (map db_language data) \<and> 2 \<le> length data
        \<and> showQuickPick env (language_items env (map db_language data)) = None"
  then show "convertGithubNwoToDatabaseUrl env nwo octokit language w
        = (Inr None, emit (QuickPick (language_items env (map db_language data)))
                       (emit choose_language (emit (listing nwo) w)))"
    using try_picker [of octokit nwo data language env w] by (simp add: convert_ok)
qed


lemmas resolver_defs = convertGithubNwoToDatabaseUrl_def convertGithubNwoToDatabaseUrl_try_def
  promptForLanguage_def language_items_def sort_by_def needs_prompt_def list_includes_def
  truthy_def nwo_owner_def nwo_repo_def quoted_def resolved_def listing_def choose_language_def
  emit_def Let_def

theorem language_selection_witness:
  "listCodeqlDatabases (example_octokit example_data) (nwo_owner ''octo/repo'') (nwo_repo ''octo/repo'')
     = Inr example_data
   \<and> ''java'' \<in> set (map db_language example_data)
   \<and> find (\<lambda>db. db_language db = ''java'') example_data = Some java_db
   \<and> convertGithubNwoToDatabaseUrl example_env ''octo/repo'' (example_octokit example_data)
        (Some ''java'') (example_world File)
      = (Inr (Some (resolved ''octo/repo'' java_db)),
         emit (listing ''octo/repo'') (example_world File))
   \<and> needs_prompt None (map db_language [python_db])
   \<and> convertGithubNwoToDatabaseUrl example_env ''octo/repo'' (example_octokit [python_db])
        None (example_world File)
      = (Inr (Some (resolved ''octo/repo'' python_db)),
         emit choose_language (emit (listing ''octo/repo'') (example_world File)))
   \<and> needs_prompt None (map db_language example_data) \<and> 2 \<le> length example_data
   \<and> language_items example_env (map db_language example_data)
      = [language_item ''python'', language_item ''java'']
   \<and> showQuickPick example_env [language_item ''python'', language_item ''java''] = None
   \<and> convertGithubNwoToDatabaseUrl example_env ''octo/repo'' (example_octokit example_data)
        None (example_world File)
      = (Inr None, emit (QuickPick [language_item ''python'', language_item ''java''])
                     (emit choose_language (emit (listing ''octo/repo'') (example_world File))))
   \<and> QuickPick [language_item ''python'', language_item ''java'']
        \<in> set (trace (snd (convertGithubNwoToDatabaseUrl example_env ''octo/repo''
                              (example_octokit example_data) None (example_world File))))"
proof -
  have list: "listCodeqlDatabases (example_octokit data) (nwo_owner ''octo/repo'')
                (nwo_repo ''octo/repo'') = Inr data" for data
    by (simp add: example_octokit_def)
  have data: "example_data = [python_db, java_db]"
    by (simp add: example_data_def python_db_def java_db_def)
  have f: "find (\<lambda>db. db_language db = ''java'') example_data = Some java_db"
    by (simp add: data) (simp add: python_db_def java_db_def)
  have items: "language_items example_env (map db_language example_data)
               = [language_item ''python'', language_item ''java'']"
    by (simp add: language_items_def sort_by_def example_env_def example_data_def
          language_item_def)
  have none: "showQuickPick example_env [language_item ''python'', language_item ''java''] = None"
    by (simp add: example_env_def)
  have np: "needs_prompt None languages" for languages
    by (simp add: needs_prompt_def)
  have two: "2 \<le> length example_data"
    by (simp add: example_data_def)
  have java: "''java'' \<in> set (map db_language example_data)"
    by (simp add: example_data_def)
  note t = language_selection [of "example_octokit example_data" "''octo/repo''" example_data
      "''java''" example_env "example_world File" None python_db]
  note t1 = language_selection [of "example_octokit [python_db]" "''octo/repo''" "[python_db]"
      "''java''" example_env "example_world File" None python_db]
  have a: "convertGithubNwoToDatabaseUrl example_env ''octo/repo'' (example_octokit example_data)
        (Some ''java'') (example_world File)
      = (Inr (Some (resolved ''octo/repo'' java_db)),
         emit (listing ''octo/repo'') (example_world File))"
    using t list f java by auto
  have b: "convertGithubNwoToDatabaseUrl example_env ''octo/repo'' (example_octokit [python_db])
        None (example_world File)
      = (Inr (Some (resolved ''octo/repo'' python_db)),
         emit choose_language (emit (listing ''octo/repo'') (example_world File)))"
    using t1 list np by (simp add: python_db_def)
  have c: "convertGithubNwoToDatabaseUrl example_env ''octo/repo'' (example_octokit example_data)
        None (example_world File)
      = (Inr None, emit (QuickPick [language_item ''python'', language_item ''java''])
                     (emit choose_language (emit (listing ''octo/repo'') (example_world File))))"
    using t list np two items none by simp
  have d: "QuickPick [language_item ''python'', language_item ''java'']
        \<in> set (trace (snd (convertGithubNwoToDatabaseUrl example_env ''octo/repo''
                              (example_octokit example_data) None (example_world File))))"
    using t list np two items by simp
  show ?thesis
    by (intro conjI list java f a np b two items none c d)
qed


subsection \<open>The errors of the resolver\<close>

text \<open>
  Claim C7, as amended. When no entry of the list matches the chosen language, the body of
  the resolver raises "No database found for language"; this happens inside the
  \<^verbatim>\<open>try\<close> block, whose handler logs the message and throws "Unable to get database for"
  with the name of the repository. The caller receives this error, the same as for a
  failure of the listing request; it is the only error the resolver ever returns.
\<close>

theorem lookup_errors_wrapped:
  "(listCodeqlDatabases octokit (nwo_owner nwo) (nwo_repo nwo) = Inl e \<longrightarrow>
      convertGithubNwoToDatabaseUrl env nwo octokit language w
      = (Inl (unable nwo), emit (Log (''Error: '' @ getErrorMessage e)) (emit (listing nwo) w)))
   \<and> (listCodeqlDatabases octokit (nwo_owner nwo) (nwo_repo nwo) = Inr data
        \<and> needs_prompt language (map db_language data) \<and> 2 \<le> length data
        \<and> showQuickPick env (language_items env (map db_language data)) = Some item
        \<and> item_language item \<noteq> [] \<and> item_language item \<notin> set (map db_language data) \<longrightarrow>
      fst (convertGithubNwoToDatabaseUrl_try env nwo octokit language w)
      = Inl (no_database_for (item_language item))
      \<and> convertGithubNwoToDatabaseUrl env nwo octokit language w
        = (Inl (unable nwo),
           emit (Log (''Error: '' @ getErrorMessage (no_database_for (item_language item))))
             (emit (QuickPick (language_items env (map db_language data)))
                (emit choose_language (emit (listing nwo) w)))))
   \<and> (fst (convertGithubNwoToDatabaseUrl env nwo octokit language w) = Inl e' \<longrightarrow>
        e' = unable nwo)"
proof (intro conjI impI)
  assume "listCodeqlDatabases octokit (nwo_owner nwo) (nwo_repo nwo) = Inl e"
  then show "convertGithubNwoToDatabaseUrl env nwo octokit language w
      = (Inl (unable nwo), emit (Log (''Error: '' @ getErrorMessage e)) (emit (listing nwo) w))"
    by (simp add: convertGithubNwoToDatabaseUrl_def convertGithubNwoToDatabaseUrl_try_def
          Let_def unable_def listing_def)
next
  assume a: "listCodeqlDatabases octokit (nwo_owner nwo) (nwo_repo nwo) = Inr data
        \<and> needs_prompt language (map db_language data) \<and> 2 \<le> length data
        \<and> showQuickPick env (language_items env (map db_language data)) = Some item
        \<and> item_language item \<noteq> [] \<and> item_language item \<notin> set (map db_language data)"
  then have none: "find (\<lambda>db. db_language db = item_language item) data = None"
    by (force simp: find_None_iff)
  have t: "convertGithubNwoToDatabaseUrl_try env nwo octokit language w
           = (Inl (no_database_for (item_language item)),
              emit (QuickPick (language_items env (map db_language data)))
                (emit choose_language (emit (listing nwo) w)))"
    using a none try_picker [of octokit nwo data language env w]
    by (simp add: no_database_for_def)
  show "fst (convertGithubNwoToDatabaseUrl_try env nwo octokit language w)
        = Inl (no_database_for (item_language item))"
    by (simp add: t)
  show "convertGithubNwoToDatabaseUrl env nwo octokit language w
        = (Inl (unable nwo),
           emit (Log (''Error: '' @ getErrorMessage (no_database_for (item_language item))))
             (emit (QuickPick (language_items env (map db_language data)))
                (emit choose_language (emit (listing nwo) w))))"
    using convert_error [OF t] by (simp add: unable_def)
next
  assume "fst (convertGithubNwoToDatabaseUrl env nwo octokit language w) = Inl e'"
  then show "e' = unable nwo"
    by (auto simp: convertGithubNwoToDatabaseUrl_def unable_def split: prod.splits sum.splits)
qed


theorem lookup_errors_wrapped_witness:
  "listCodeqlDatabases failing_octokit (nwo_owner ''octo/repo'') (nwo_repo ''octo/repo'')
     = Inl (Error ''Not Found'')
   \<and> convertGithubNwoToDatabaseUrl env_go ''octo/repo'' failing_octokit None (example_world File)
      = (Inl (unable ''octo/repo''),
         emit (Log ''Error: Not Found'') (emit (listing ''octo/repo'') (example_world File)))
   \<and> showQuickPick env_go (language_items env_go (map db_language example_data)) = Some go_item
   \<and> item_language go_item \<notin> set (map db_language example_data)
   \<and> fst (convertGithubNwoToDatabaseUrl_try env_go ''octo/repo'' (example_octokit example_data)
            None (example_world File)) = Inl (no_database_for ''go'')
   \<and> fst (convertGithubNwoToDatabaseUrl env_go ''octo/repo'' (example_octokit example_data)
            None (example_world File)) = Inl (unable ''octo/repo'')"
proof -
  have l0: "listCodeqlDatabases failing_octokit (nwo_owner ''octo/repo'') (nwo_repo ''octo/repo'')
            = Inl (Error ''Not Found'')"
    by (simp add: failing_octokit_def)
  have l1: "listCodeqlDatabases (example_octokit example_data) (nwo_owner ''octo/repo'')
              (nwo_repo ''octo/repo'') = Inr example_data"
    by (simp add: example_octokit_def)
  have pick: "showQuickPick env_go (language_items env_go (map db_language example_data))
              = Some go_item"
    by (simp add: env_go_def example_env_def)
  have go: "item_language go_item \<noteq> []" "item_language go_item = ''go''"
    "item_language go_item \<notin> set (map db_language example_data)"
    by (simp_all add: go_item_def example_data_def)
  have np: "needs_prompt None (map db_language example_data)" "2 \<le> length example_data"
    by (simp_all add: needs_prompt_def example_data_def)
  have a: "convertGithubNwoToDatabaseUrl env_go ''octo/repo'' failing_octokit None (example_world File)
      = (Inl (unable ''octo/repo''),
         emit (Log ''Error: Not Found'') (emit (listing ''octo/repo'') (example_world File)))"
    using lookup_errors_wrapped [of failing_octokit "''octo/repo''" "Error ''Not Found''" env_go
        None "example_world File" example_data go_item "unable ''octo/repo''"] l0 by simp
  note t = lookup_errors_wrapped [of "example_octokit example_data" "''octo/repo''"
      "Error ''Not Found''" env_go None "example_world File" example_data go_item
      "unable ''octo/repo''"]
  have b: "fst (convertGithubNwoToDatabaseUrl_try env_go ''octo/repo'' (example_octokit example_data)
            None (example_world File)) = Inl (no_database_for ''go'')"
    using t l1 pick go np by simp
  have c: "fst (convertGithubNwoToDatabaseUrl env_go ''octo/repo'' (example_octokit example_data)
            None (example_world File)) = Inl (unable ''octo/repo'')"
    using t l1 pick go np by simp
  show ?thesis
    by (intro conjI l0 a pick go(3) b c)
qed


text \<open>
  The claim as stated fails: the picker answers \<^verbatim>\<open>go\<close>, no entry matches, and the
  caller of the resolver, as the caller of \<^verbatim>\<open>downloadGitHubDatabase\<close>, receives not the
  error that names the language but the one that names the repository.
\<close>

theorem no_database_error_replaced_counterexample:
  "fst (convertGithubNwoToDatabaseUrl_try env_go ''octo/repo'' (example_octokit example_data) None
          (example_world File))
     = Inl (Error (''No database found for language '' @ quoted ''go''))
   \<and> fst (convertGithubNwoToDatabaseUrl env_go ''octo/repo'' (example_octokit example_data) None
          (example_world File))
     = Inl (Error (''Unable to get database for '' @ quoted ''octo/repo''))
   \<and> fst (downloadGitHubDatabase env_go ''octo/repo'' (Some [''storage'']) None True True
          (example_world File))
     = Inl (Error (''Unable to get database for '' @ quoted ''octo/repo''))
   \<and> Error (''No database found for language '' @ quoted ''go'')
     \<noteq> Error (''Unable to get database for '' @ quoted ''octo/repo'')"
  by (simp add: downloadGitHubDatabase_def resolver_defs env_go_def go_item_def example_env_def
        example_octokit_def example_data_def)

subsection \<open>The temporary archive\<close>

lemma archivePath_nonempty: "archivePath_of env \<noteq> []"
  by (simp add: archivePath_of_def join_def)

lemma remove_gone: "remove env p w = (Inr u, w') \<Longrightarrow> p \<noteq> [] \<Longrightarrow> \<not> pathExists (files w') p"
  by (auto simp: remove_def pathExists_def lookup_rm_same split: option.splits)

lemma remove_done: "remove env p w = (Inr u, w') \<Longrightarrow> remove_error env p = None"
  by (auto simp: remove_def split: option.splits)

lemma remove_deferred: "remove env p w = (r, w') \<Longrightarrow> deferred w' = deferred w"
  by (auto simp: remove_def split: option.splits)

lemma readAndUnzip_deferred:
  "readAndUnzip env zipUrl unzipPath w = (r, w') \<Longrightarrow> deferred w' = deferred w"
  by (auto simp: readAndUnzip_def emit_def Let_def split: option.splits sum.splits)

lemma run_deferred_append:
  "run_deferred env (ps @ qs) fs = run_deferred env qs (run_deferred env ps fs)"
  by (induction ps arbitrary: fs) simp_all

text \<open>The removal deferred last has removed its file when the deferred removals have run.\<close>

lemma settle_gone:
  assumes "deferred w = ps @ [p]" and "remove_error env p = None" and "p \<noteq> []"
  shows "\<not> pathExists (files (settle env w)) p"
  using assms by (simp add: settle_def run_deferred_append pathExists_def lookup_rm_same)

lemma fetch_rejected:
  assumes "fetch env databaseUrl requestHeaders = Inl e"
  shows "fetchAndUnzip env databaseUrl requestHeaders unzipPath w
         = (Inl (relabel ''The request timed out.'' e),
            emit (Fetch databaseUrl requestHeaders) (emit (Progress downloading_database) w))"
  using assms by (simp add: fetchAndUnzip_def Let_def relabel_def downloading_database_def)

lemma fetch_failing_response:
  assumes "fetch env databaseUrl requestHeaders = Inr r"
    and "checkForFailingResponse env r ''Error downloading database'' = Inl e"
  shows "fetchAndUnzip env databaseUrl requestHeaders unzipPath w
         = (Inl e, emit (Fetch databaseUrl requestHeaders) (emit (Progress downloading_database) w))"
proof -
  from assms(2) have "\<not> instanceofAbortError e"
    by (auto simp: checkForFailingResponse_def Let_def split: if_splits)
  with assms show ?thesis
    by (simp add: fetchAndUnzip_def Let_def downloading_database_def)
qed

lemma fetch_stream_fails:
  assumes "fetch env databaseUrl requestHeaders = Inr r" and "ok r" and "body r = Inl e"
  shows "fst (fetchAndUnzip env databaseUrl requestHeaders unzipPath w)
         = Inl (relabel ''The download timed out.'' e)"
    and "files (snd (fetchAndUnzip env databaseUrl requestHeaders unzipPath w))
         = files (write_partial (archivePath_of env) w)"
    and "deferred (snd (fetchAndUnzip env databaseUrl requestHeaders unzipPath w))
         = deferred w @ [archivePath_of env]"
  using assms
  by (simp_all add: fetchAndUnzip_def checkForFailingResponse_def Let_def relabel_def
        defer_remove_def write_partial_def emit_def emit_all_def split: option.splits)

lemma fetch_write_fails:
  assumes "fetch env databaseUrl requestHeaders = Inr r" and "ok r" and "body r = Inr content"
    and "put (files w) (archivePath_of env) content = None"
  shows "fst (fetchAndUnzip env databaseUrl requestHeaders unzipPath w) = Inl ENOENT"
    and "files (snd (fetchAndUnzip env databaseUrl requestHeaders unzipPath w)) = files w"
    and "deferred (snd (fetchAndUnzip env databaseUrl requestHeaders unzipPath w))
         = deferred w @ [archivePath_of env]"
  using assms
  by (simp_all add: fetchAndUnzip_def checkForFailingResponse_def Let_def ENOENT_def
        defer_remove_def emit_def emit_all_def)

lemma remove_facts:
  "remove env p w = (Inr u, w') \<Longrightarrow>
   remove_error env p = None \<and> (p \<noteq> [] \<longrightarrow> \<not> pathExists (files w') p) \<and> deferred w' = deferred w"
  using remove_done remove_gone remove_deferred by blast

lemma fetch_success_removed:
  assumes "fetchAndUnzip env databaseUrl requestHeaders unzipPath w = (Inr u, w')"
  shows "remove_error env (archivePath_of env) = None
         \<and> \<not> pathExists (files w') (archivePath_of env) \<and> deferred w' = deferred w"
  using assms archivePath_nonempty [of env]
  by (auto simp: fetchAndUnzip_def Let_def emit_def emit_all_def
      split: sum.splits prod.splits if_splits option.splits
      dest!: remove_facts readAndUnzip_deferred)

text \<open>
  Claim C8, as amended. When the request fails, rejected or answered with a failing status,
  no file has been written and no removal is started. When the stream into the temporary
  file breaks off or the file cannot be written, the call fails with that error and what
  has been written of the file is still there: its removal is deferred to the callback
  that closes the stream and its outcome goes to nobody; once the deferred removal has
  run without failing, the file is gone. After a successful unpacking the removal is
  awaited: a call that returns has removed the file, and a removal that fails makes the
  call fail.
\<close>

theorem temporary_archive_removed:
  "(fetch env databaseUrl requestHeaders = Inl e \<longrightarrow>
      fst (fetchAndUnzip env databaseUrl requestHeaders unzipPath w)
      = Inl (relabel ''The request timed out.'' e)
      \<and> files (snd (fetchAndUnzip env databaseUrl requestHeaders unzipPath w)) = files w
      \<and> deferred (snd (fetchAndUnzip env databaseUrl requestHeaders unzipPath w)) = deferred w)
   \<and> (fetch env databaseUrl requestHeaders = Inr r
        \<and> checkForFailingResponse env r ''Error downloading database'' = Inl e \<longrightarrow>
        fst (fetchAndUnzip env databaseUrl requestHeaders unzipPath w) = Inl e
        \<and> files (snd (fetchAndUnzip env databaseUrl requestHeaders unzipPath w)) = files w
        \<and> deferred (snd (fetchAndUnzip env databaseUrl requestHeaders unzipPath w)) = deferred w)
   \<and> (fetch env databaseUrl requestHeaders = Inr r \<and> ok r \<and> body r = Inl e \<longrightarrow>
        fst (fetchAndUnzip env databaseUrl requestHeaders unzipPath w)
        = Inl (relabel ''The download timed out.'' e)
        \<and> files (snd (fetchAndUnzip env databaseUrl requestHeaders unzipPath w))
          = files (write_partial (archivePath_of env) w)
        \<and> deferred (snd (fetchAndUnzip env databaseUrl requestHeaders unzipPath w))
          = deferred w @ [archivePath_of env]
        \<and> (remove_error env (archivePath_of env) = None \<longrightarrow>
             \<not> pathExists
                 (files (settle env (snd (fetchAndUnzip env databaseUrl requestHeaders unzipPath w))))
                 (archivePath_of env)))
   \<and> (fetch env databaseUrl requestHeaders = Inr r \<and> ok r \<and> body r = Inr content
        \<and> put (files w) (archivePath_of env) content = None \<longrightarrow>
        fst (fetchAndUnzip env databaseUrl requestHeaders unzipPath w) = Inl ENOENT
        \<and> files (snd (fetchAndUnzip env databaseUrl requestHeaders unzipPath w)) = files w
        \<and> deferred (snd (fetchAndUnzip env databaseUrl requestHeaders unzipPath w))
          = deferred w @ [archivePath_of env])
   \<and> (fetchAndUnzip env databaseUrl requestHeaders unzipPath w = (Inr (), w') \<longrightarrow>
        remove_error env (archivePath_of env) = None
        \<and> \<not> pathExists (files w') (archivePath_of env)
        \<and> deferred w' = deferred w)"
proof (intro conjI impI)
  assume a: "fetch env databaseUrl requestHeaders = Inr r \<and> ok r \<and> body r = Inl e"
    and ok: "remove_error env (archivePath_of env) = None"
  from a have "deferred (snd (fetchAndUnzip env databaseUrl requestHeaders unzipPath w))
               = deferred w @ [archivePath_of env]"
    by (simp add: fetch_stream_fails)
  then show "\<not> pathExists
                 (files (settle env (snd (fetchAndUnzip env databaseUrl requestHeaders unzipPath w))))
                 (archivePath_of env)"
    using ok by (rule settle_gone) (rule archivePath_nonempty)
qed (simp_all add: fetch_rejected fetch_failing_response fetch_stream_fails fetch_write_fails
       fetch_success_removed files_emit emit_def)

lemmas fetch_eval = fetch_run_def https_url_def fetchAndUnzip_def readAndUnzip_def
  checkForFailingResponse_def first_truthy_def archivePath_of_def join_def
  string_of_nat.simps digit_def emit_def emit_all_def write_partial_def defer_remove_def
  settle_def remove_def pathExists_def path_basename_def relabel_def ENOENT_def Let_def
  example_world_def example_env_def example_db_def example_unbundle_def example_parse_def

theorem temporary_archive_removed_witness:
  "fetch env_timeout https_url [] = Inl (AbortError ''aborted'')
   \<and> fst (fetch_run env_timeout) = Inl (AbortError ''The request timed out.'')
   \<and> files (snd (fetch_run env_timeout)) = files (example_world File)
   \<and> deferred (snd (fetch_run env_timeout)) = []
   \<and> fst (fetch_run env_not_found) = Inl not_found_error
   \<and> files (snd (fetch_run env_not_found)) = files (example_world File)
   \<and> deferred (snd (fetch_run env_not_found)) = []
   \<and> fst (fetch_run env_broken_stream) = Inl (Error ''socket hang up'')
   \<and> lookup (files (snd (fetch_run env_broken_stream))) [''tmp'', ''archive-17.zip''] = Some File
   \<and> deferred (snd (fetch_run env_broken_stream)) = [[''tmp'', ''archive-17.zip'']]
   \<and> remove_error env_broken_stream (archivePath_of env_broken_stream) = None
   \<and> \<not> pathExists (files (settle env_broken_stream (snd (fetch_run env_broken_stream))))
           (archivePath_of env_broken_stream)
   \<and> fst (fetch_run env_no_tmp) = Inl ENOENT
   \<and> files (snd (fetch_run env_no_tmp)) = files (example_world File)
   \<and> deferred (snd (fetch_run env_no_tmp)) = [[''missing'', ''archive-17.zip'']]
   \<and> fetch_run example_env = (Inr (), snd (fetch_run example_env))
   \<and> \<not> pathExists (files (snd (fetch_run example_env))) (archivePath_of example_env)
   \<and> deferred (snd (fetch_run example_env)) = []"
proof -
  let ?w = "example_world File"
  let ?broken = "\<lparr>ok = True, response_text = [], content_length = None,
                   body = Inl (Error ''socket hang up'')\<rparr>"
  let ?failing = "\<lparr>ok = False, response_text = ''Not Found'', content_length = None,
                    body = Inr File\<rparr>"
  let ?good = "\<lparr>ok = True, response_text = [], content_length = None,
                 body = Inr (Zip example_db)\<rparr>"
  have d0: "deferred ?w = []"
    by (simp add: example_world_def)
  have f1: "fetch env_timeout https_url [] = Inl (AbortError ''aborted'')"
    by (simp add: env_timeout_def)
  have f2: "fetch env_broken_stream https_url [] = Inr ?broken"
    and r2: "remove_error env_broken_stream (archivePath_of env_broken_stream) = None"
    and a2: "archivePath_of env_broken_stream = [''tmp'', ''archive-17.zip'']"
    and p2: "files (write_partial [''tmp'', ''archive-17.zip''] ?w)
             = Dir [(''tmp'', Dir [(''db.zip'', File), (''archive-17.zip'', File)]),
                    (''storage'', Dir [])]"
    by (simp_all add: env_broken_stream_def example_env_def archivePath_of_def join_def
          string_of_nat.simps digit_def write_partial_def example_world_def)
  have f3: "fetch env_not_found https_url [] = Inr ?failing"
    and c3: "checkForFailingResponse env_not_found ?failing ''Error downloading database''
             = Inl not_found_error"
    by (simp_all add: env_not_found_def example_env_def checkForFailingResponse_def
          not_found_error_def)
  have f4: "fetch env_no_tmp https_url [] = Inr ?good"
    and a4: "archivePath_of env_no_tmp = [''missing'', ''archive-17.zip'']"
    and p4: "put (files ?w) [''missing'', ''archive-17.zip''] (Zip example_db) = None"
    by (simp_all add: env_no_tmp_def example_env_def archivePath_of_def join_def
          string_of_nat.simps digit_def example_world_def)
  note t1 = temporary_archive_removed [of env_timeout https_url "[]" "AbortError ''aborted''"
      "[''storage'', ''db'']" ?w ?broken File ?w]
  note t2 = temporary_archive_removed [of env_broken_stream https_url "[]"
      "Error ''socket hang up''" "[''storage'', ''db'']" ?w ?broken File ?w]
  note t3 = temporary_archive_removed [of env_not_found https_url "[]" not_found_error
      "[''storage'', ''db'']" ?w ?failing File ?w]
  note t4 = temporary_archive_removed [of env_no_tmp https_url "[]" not_found_error
      "[''storage'', ''db'']" ?w ?good "Zip example_db" ?w]
  have a: "fst (fetch_run env_timeout) = Inl (AbortError ''The request timed out.'')"
    and b: "files (snd (fetch_run env_timeout)) = files ?w"
    and c: "deferred (snd (fetch_run env_timeout)) = []"
    using t1 f1 d0 by (simp_all add: fetch_run_def relabel_def)
  have d: "fst (fetch_run env_not_found) = Inl not_found_error"
    and e: "files (snd (fetch_run env_not_found)) = files ?w"
    and f: "deferred (snd (fetch_run env_not_found)) = []"
    using t3 f3 c3 d0 by (simp_all add: fetch_run_def)
  have g: "fst (fetch_run env_broken_stream) = Inl (Error ''socket hang up'')"
    and h: "lookup (files (snd (fetch_run env_broken_stream))) [''tmp'', ''archive-17.zip'']
            = Some File"
    and i: "deferred (snd (fetch_run env_broken_stream)) = [[''tmp'', ''archive-17.zip'']]"
    and j: "\<not> pathExists (files (settle env_broken_stream (snd (fetch_run env_broken_stream))))
               (archivePath_of env_broken_stream)"
    using t2 f2 r2 a2 p2 d0 by (simp_all add: fetch_run_def relabel_def)
  have k: "fst (fetch_run env_no_tmp) = Inl ENOENT"
    and l: "files (snd (fetch_run env_no_tmp)) = files ?w"
    and m: "deferred (snd (fetch_run env_no_tmp)) = [[''missing'', ''archive-17.zip'']]"
    using t4 f4 a4 p4 d0 by (simp_all add: fetch_run_def)
  have "fst (fetch_run example_env) = Inr ()"
    by (simp add: fetch_eval)
  then have n: "fetch_run example_env = (Inr (), snd (fetch_run example_env))"
    by (simp add: prod_eq_iff)
  have o: "\<not> pathExists (files (snd (fetch_run example_env))) (archivePath_of example_env)"
    and q: "deferred (snd (fetch_run example_env)) = []"
    using temporary_archive_removed [of example_env https_url "[]" not_found_error
        "[''storage'', ''db'']" ?w ?good File "snd (fetch_run example_env)"] n d0
    by (simp_all add: fetch_run_def)
  show ?thesis
    by (intro conjI f1 a b c d e f g h i r2 j k l m n o q)
qed

text \<open>
  The claim as stated fails in two ways. When the removal after a successful unpacking
  fails, its error is the error of the call and the file stays. When the unpacking fails
  (the download is no archive and the unbundler raises its error), the temporary file is
  still there, no removal is deferred, and nothing stands in the way of a removal.
\<close>

theorem archive_left_behind_counterexample:
  "fst (fetch_run env_locked) = Inl (Error ''EBUSY: resource busy or locked'')
   \<and> lookup (files (snd (fetch_run env_locked))) [''tmp'', ''archive-17.zip'']
     = Some (Zip example_db)
   \<and> fst (fetch_run env_bad_archive) = Inl (Error ''unexpected end of file'')
   \<and> archivePath_of env_bad_archive = [''tmp'', ''archive-17.zip'']
   \<and> lookup (files (snd (fetch_run env_bad_archive))) [''tmp'', ''archive-17.zip''] = Some File
   \<and> deferred (snd (fetch_run env_bad_archive)) = []
   \<and> lookup (files (settle env_bad_archive (snd (fetch_run env_bad_archive))))
        [''tmp'', ''archive-17.zip''] = Some File
   \<and> remove_error env_bad_archive [''tmp'', ''archive-17.zip''] = None"
  by (simp add: env_bad_archive_def env_locked_def fetch_eval)

subsection \<open>The progress reports\<close>

lemma reports_emit [simp]: "reports (emit e w) = reports w @ progress_of e"
  by (simp add: reports_def emit_def)

lemma reports_emit_all [simp]: "reports (emit_all ps w) = reports w @ ps"
proof -
  have "concat (map progress_of (map Progress ps)) = ps"
    by (induction ps) simp_all
  then show ?thesis by (simp add: reports_def emit_all_def)
qed

lemma reports_files [simp]: "reports (w\<lparr>files := fs\<rparr>) = reports w"
  by (simp add: reports_def)

lemma reports_deferred [simp]: "reports (defer_remove p w) = reports w"
  by (simp add: reports_def defer_remove_def)






















end
